theory Spec2Isabelle
  imports Complex_Main "HOL-Library.Sublist"
begin

section \<open>Formula objects of \<open>nipy.algorithms.statistics.formula.formulae\<close>\<close>

text \<open>
  The module builds regression design matrices from symbolic terms. Its symbolic
  engine (sympy) and its array library (numpy, scipy) are outside the module: the
  embedding takes their operations as parameters (the records \<open>sympy\<close> and, further
  down, \<open>numlib\<close>) and models the module's own code over them.
\<close>

subsection \<open>Errors and text formatting\<close>

text \<open>
  Exceptions are values. A \<open>ValueError\<close> carries the literal part of the message the
  source raises it with.
\<close>

datatype error =
    ValueError string
  | IndexError
  | KeyError
  | TypeError
  | AttributeError

fun is_ValueError :: "error \<Rightarrow> bool" where
  "is_ValueError (ValueError m) = True"
| "is_ValueError e = False"

text \<open>\<open>"%d" % n\<close> and \<open>str(n)\<close> for integers: decimal digits, a minus sign for negatives.\<close>

definition digit_char :: "nat \<Rightarrow> char" where
  "digit_char d = char_of (48 + d)"

function str_nat :: "nat \<Rightarrow> string" where
  "str_nat n = (if n < 10 then [digit_char n] else str_nat (n div 10) @ [digit_char (n mod 10)])"
  by pat_completeness auto
termination
  by (relation "measure id") auto

declare str_nat.simps [simp del]

definition str_int :: "int \<Rightarrow> string" where
  "str_int i = (if i < 0 then CHR ''-'' # str_nat (nat (- i)) else str_nat (nat i))"

subsection \<open>Symbolic expressions\<close>

text \<open>
  A factor level is an integer or a text (\<open>Factor.__init__\<close> coerces every level to
  one of the two). \<open>_to_str\<close> renders a level for a term name; byte strings are taken
  as already decoded.
\<close>

datatype level = LInt int | LStr string

fun to_str :: "level \<Rightarrow> string" where
  "to_str (LInt i) = str_int i"
| "to_str (LStr s) = s"

text \<open>
  The expressions the module handles. The leaves are the atom classes it tells apart:
  \<open>sympy.Number\<close> (integers suffice: the module only names \<open>Number(1)\<close>), plain
  \<open>sympy.Symbol\<close>, \<open>sympy.Dummy\<close> (name and the unique index sympy gives each dummy),
  the module's \<open>Term(name)\<close>, \<open>FactorTerm(name, level)\<close> (with its attributes
  \<open>factor_name\<close> and \<open>level\<close>) and \<open>Beta(name, term)\<close> (a dummy tied to a term).
  \<open>Apply f args\<close> is any compound node that sympy builds (a sum, a product, a function
  application).

  Equality of the datatype stands for sympy's \<open>==\<close>. Sympy compares symbols of one
  class by name, and a \<open>FactorTerm\<close> is named \<open>name_level\<close>; the embedding compares
  factor name and level, which is the same as long as two factor terms with one
  name have one factor name and one level (the module's symbol cache would otherwise
  share one object between them).
\<close>

datatype expr =
    Number int
  | Symbol string
  | Dummy string nat
  | Term string
  | FactorTerm string level
  | Beta string nat expr
  | Apply string "expr list"

text \<open>The capability flags \<open>_term_flag\<close> and \<open>_factor_term_flag\<close>, and \<open>isinstance(_, sympy.Symbol)\<close>.\<close>

fun is_term :: "expr \<Rightarrow> bool" where
  "is_term (Term n) = True"
| "is_term (FactorTerm n l) = True"
| "is_term e = False"

fun is_factor_term :: "expr \<Rightarrow> bool" where
  "is_factor_term (FactorTerm n l) = True"
| "is_factor_term e = False"

fun is_symbol :: "expr \<Rightarrow> bool" where
  "is_symbol (Number i) = False"
| "is_symbol (Apply f args) = False"
| "is_symbol e = True"

text \<open>\<open>e.atoms()\<close>: the leaves of an expression.\<close>

fun atoms :: "expr \<Rightarrow> expr list" where
  "atoms (Apply f args) = concat (map atoms args)"
| "atoms e = [e]"

text \<open>The attributes \<open>factor_name\<close> and \<open>level\<close> of a \<open>FactorTerm\<close>; only read on factor terms.\<close>

fun factor_name :: "expr \<Rightarrow> string" where
  "factor_name (FactorTerm n l) = n"
| "factor_name e = []"

fun level_of :: "expr \<Rightarrow> level" where
  "level_of (FactorTerm n l) = l"
| "level_of e = LStr []"

text \<open>
  The operations of the symbolic engine that the module calls: the arithmetic of
  \<open>sympy.Symbol\<close> (\<open>__add__\<close>, \<open>__mul__\<close>, \<open>__sub__\<close>), \<open>sympy.diff(e, p).doit()\<close>,
  \<open>e.subs(old, new)\<close>, \<open>str(e)\<close> of a compound expression and \<open>default_sort_key\<close>.
\<close>

record 'k sympy =
  s_add :: "expr \<Rightarrow> expr \<Rightarrow> expr"
  s_mul :: "expr \<Rightarrow> expr \<Rightarrow> expr"
  s_sub :: "expr \<Rightarrow> expr \<Rightarrow> expr"
  s_diff :: "expr \<Rightarrow> expr \<Rightarrow> expr"
  s_subs :: "expr \<Rightarrow> expr \<Rightarrow> expr \<Rightarrow> expr"
  s_str :: "expr \<Rightarrow> string"
  s_key :: "expr \<Rightarrow> 'k"

text \<open>
  \<open>str(e)\<close>: a symbol prints as its name (a dummy with a leading underscore, a factor
  term as \<open>name_level\<close>, see \<open>FactorTerm.__new__\<close>); the rest is the engine's printer.
\<close>

fun sym_str :: "'k sympy \<Rightarrow> expr \<Rightarrow> string" where
  "sym_str S (Symbol n) = n"
| "sym_str S (Term n) = n"
| "sym_str S (FactorTerm n l) = n @ ''_'' @ to_str l"
| "sym_str S (Dummy n i) = CHR ''_'' # n"
| "sym_str S (Beta n i t) = CHR ''_'' # n"
| "sym_str S e = s_str S e"

subsection \<open>\<open>Term.__add__\<close> and \<open>FactorTerm.__mul__\<close>\<close>

definition Term_add :: "'k sympy \<Rightarrow> expr \<Rightarrow> expr \<Rightarrow> expr" where
  "Term_add S self other = (if self = other then self else s_add S self other)"

definition FactorTerm_mul :: "'k sympy \<Rightarrow> expr \<Rightarrow> expr \<Rightarrow> expr" where
  "FactorTerm_mul S self other = (if self = other then self else s_mul S self other)"

text \<open>
  \<open>a + b\<close> and \<open>a * b\<close> as Python dispatches them on the class of the left operand:
  \<open>Term\<close> (and so \<open>FactorTerm\<close>) overrides \<open>__add__\<close>, \<open>FactorTerm\<close> overrides \<open>__mul__\<close>,
  every other expression uses sympy's own.
\<close>

definition py_add :: "'k sympy \<Rightarrow> expr \<Rightarrow> expr \<Rightarrow> expr" where
  "py_add S a b = (if is_term a then Term_add S a b else s_add S a b)"

definition py_mul :: "'k sympy \<Rightarrow> expr \<Rightarrow> expr \<Rightarrow> expr" where
  "py_mul S a b = (if is_factor_term a then FactorTerm_mul S a b else s_mul S a b)"

subsection \<open>Formula instances\<close>

text \<open>
  The callable that \<open>lambdify(args, body, "numpy")\<close> returns is kept as the data that
  defines it. The three schemas of \<open>_setup_design\<close> are kept as their field names (every
  field is \<open>float64\<close>).
\<close>

record compiled =
  f_args :: "expr list"
  f_body :: "expr list"

record dtypes =
  dt_param :: "string list"
  dt_term :: "string list"
  dt_preterm :: "string list"

text \<open>
  A \<open>Formula\<close> object: \<open>_terms\<close>, \<open>_counter\<close>, \<open>char\<close> are set by \<open>__init__\<close>; \<open>_coefs\<close>
  (a dict, kept in insertion order), \<open>_f\<close>, \<open>_dtypes\<close> and \<open>__terms\<close> are attributes that
  do not exist (\<open>None\<close>) until the code sets them. The term array is a flat sequence.
\<close>

record formula =
  p_terms :: "expr list"
  p_counter :: nat
  char :: string
  p_coefs :: "(expr \<times> expr) list option"
  p_f :: "compiled option"
  p_dtypes :: "dtypes option"
  pp_terms :: "expr list option"

definition Formula_init :: "expr list \<Rightarrow> string \<Rightarrow> formula" where
  "Formula_init seq ch =
     \<lparr>p_terms = seq, p_counter = 0, char = ch, p_coefs = None, p_f = None,
      p_dtypes = None, pp_terms = None\<rparr>"

text \<open>The property \<open>terms\<close> (\<open>_getterms\<close>); its \<open>Rmode\<close> flag is the constant \<open>False\<close>.\<close>

definition terms :: "'a formula_scheme \<Rightarrow> expr list" where
  "terms self =
     (let t = p_terms self; Rmode = False
      in if Rmode then (if Number 1 \<notin> set (p_terms self) then t @ [Number 1] else t) else t)"

text \<open>An argument that may or may not be a Formula (\<open>is_formula\<close> tests the flag).\<close>

datatype pyobj = PyFormula formula | PyOther

text \<open>\<open>Formula.__add__\<close> and \<open>Formula.__sub__\<close>; the default \<open>char\<close> of the new Formula is \<open>'b'\<close>.\<close>

definition Formula_add :: "'a formula_scheme \<Rightarrow> pyobj \<Rightarrow> error + formula" where
  "Formula_add self other =
     (case other of
        PyOther \<Rightarrow> Inl (ValueError ''only Formula objects can be added to a Formula'')
      | PyFormula other_f \<Rightarrow> Inr (Formula_init (terms self @ terms other_f) ''b''))"

definition Formula_sub :: "'a formula_scheme \<Rightarrow> pyobj \<Rightarrow> error + formula" where
  "Formula_sub self other =
     (case other of
        PyOther \<Rightarrow> Inl (ValueError ''only Formula objects can be subtracted from a Formula'')
      | PyFormula other_f \<Rightarrow>
          (let unwanted = set (terms other_f);
               d = filter (\<lambda>term. term \<notin> unwanted) (terms self)
           in Inr (Formula_init d ''b'')))"

text \<open>
  \<open>Formula.__eq__\<close>: \<open>np.array(f)\<close> is \<open>f.terms\<close> (\<open>__array__\<close>), of shape \<open>(len,)\<close>;
  \<open>np.all(np.equal(s, o))\<close> compares position by position.
\<close>

definition np_shape :: "'a list \<Rightarrow> nat list" where
  "np_shape xs = [length xs]"

definition Formula_eq :: "'a formula_scheme \<Rightarrow> 'b formula_scheme \<Rightarrow> bool" where
  "Formula_eq self other =
     (let s = terms self; ot = terms other
      in if np_shape s \<noteq> np_shape ot then False
         else list_all (\<lambda>(a, b). a = b) (zip s ot))"

subsection \<open>Factor\<close>

text \<open>
  The \<open>levels\<close> argument of \<open>Factor.__init__\<close> after \<open>np.asarray\<close>: a single text (an
  array of no dimension, kind \<open>S\<close> or \<open>U\<close>), a sequence of texts, or a sequence of numbers
  (\<open>float64\<close> values are modelled as reals: finite floats, no \<open>nan\<close> or \<open>inf\<close>).
\<close>

datatype levels_arg = TextScalar string | TextSeq "string list" | NumSeq "real list"

text \<open>\<open>np.asarray\<close> of a list of texts; the empty list gives an empty \<open>float64\<close> array.\<close>

definition asarray_texts :: "string list \<Rightarrow> levels_arg" where
  "asarray_texts ss = (if ss = [] then NumSeq [] else TextSeq ss)"

text \<open>\<open>np.round\<close>: to the nearest integer, a half to the even neighbour.\<close>

definition np_round :: "real \<Rightarrow> real" where
  "np_round x =
     (let f = \<lfloor>x\<rfloor>; d = x - of_int f
      in if d < 1/2 then of_int f
         else if 1/2 < d then of_int (f + 1)
         else if even f then of_int f else of_int (f + 1))"

text \<open>\<open>astype(np.int_)\<close> drops the fraction (towards zero); values are taken in range.\<close>

definition astype_int :: "real \<Rightarrow> int" where
  "astype_int x = (if 0 \<le> x then \<lfloor>x\<rfloor> else \<lceil>x\<rceil>)"

record factor = formula +
  levels :: "level list"
  name :: string

definition Factor_of_levels :: "string \<Rightarrow> level list \<Rightarrow> string \<Rightarrow> factor" where
  "Factor_of_levels nm levelsarr ch =
     formula.extend (Formula_init (map (\<lambda>l. FactorTerm nm l) levelsarr) ch)
       \<lparr>levels = levelsarr, name = nm\<rparr>"

definition Factor_init :: "string \<Rightarrow> levels_arg \<Rightarrow> string \<Rightarrow> error + factor" where
  "Factor_init nm lvls ch =
     (let levelsarr = (case lvls of TextScalar s \<Rightarrow> asarray_texts (map (\<lambda>c. [c]) s) | a \<Rightarrow> a)
      in case levelsarr of
           NumSeq xs \<Rightarrow>
             if \<not> list_all (\<lambda>x. x = np_round x) xs
             then Inl (ValueError ''levels must be strings or ints'')
             else Inr (Factor_of_levels nm (map (\<lambda>x. LInt (astype_int x)) xs) ch)
         | TextSeq ss \<Rightarrow> Inr (Factor_of_levels nm (map LStr ss) ch)
         | TextScalar s \<Rightarrow> Inr (Factor_of_levels nm (map (\<lambda>c. LStr [c]) s) ch))"

text \<open>
  Python's \<open>v[i]\<close> and \<open>v.pop(i)\<close>: a negative index counts from the end, an index out
  of range raises \<open>IndexError\<close>.
\<close>

definition py_index :: "'a list \<Rightarrow> int \<Rightarrow> error + nat" where
  "py_index v i =
     (let n = int (length v); j = (if i < 0 then i + n else i)
      in if 0 \<le> j \<and> j < n then Inr (nat j) else Inl IndexError)"

definition list_pop :: "'a list \<Rightarrow> nat \<Rightarrow> 'a list" where
  "list_pop v k = take k v @ drop (Suc k) v"

text \<open>\<open>Factor._getmaineffect\<close>; \<open>vv - ref_term\<close> is sympy's subtraction.\<close>

definition getmaineffect :: "'k sympy \<Rightarrow> 'a formula_scheme \<Rightarrow> int \<Rightarrow> error + formula" where
  "getmaineffect S self ref =
     (let v = p_terms self
      in case py_index v ref of
           Inl e \<Rightarrow> Inl e
         | Inr k \<Rightarrow>
             (let ref_term = v ! k; v' = list_pop v k
              in Inr (Formula_init (map (\<lambda>vv. s_sub S vv ref_term) v') ''b'')))"

definition main_effect :: "'k sympy \<Rightarrow> 'a formula_scheme \<Rightarrow> error + formula" where
  "main_effect S self = getmaineffect S self (- 1)"

subsection \<open>State outside the Formula: the random generator and sympy's dummy counter\<close>

text \<open>
  \<open>np.random.randint\<close> reads and advances numpy's global generator: \<open>rng_draws\<close> is
  the sequence it will produce, \<open>rng_pos\<close> the number of draws made so far.
  \<open>dummy_count\<close> is the counter from which sympy numbers each \<open>Dummy\<close> it creates.
\<close>

record world =
  rng_draws :: "nat \<Rightarrow> nat"
  rng_pos :: nat
  dummy_count :: nat

text \<open>\<open>np.random.randint(low=0, high=2**30)\<close>.\<close>

definition randint :: "world \<Rightarrow> nat \<times> world" where
  "randint w = (rng_draws w (rng_pos w) mod 2 ^ 30, w\<lparr>rng_pos := Suc (rng_pos w)\<rparr>)"

definition new_Beta :: "string \<Rightarrow> expr \<Rightarrow> world \<Rightarrow> expr \<times> world" where
  "new_Beta nm t w = (Beta nm (dummy_count w) t, w\<lparr>dummy_count := Suc (dummy_count w)\<rparr>)"

definition new_Dummy :: "string \<Rightarrow> world \<Rightarrow> expr \<times> world" where
  "new_Dummy nm w = (Dummy nm (dummy_count w), w\<lparr>dummy_count := Suc (dummy_count w)\<rparr>)"

text \<open>
  A method runs on the pair of its object and the world and returns a value or an
  error, with the pair as the call left it.
\<close>

definition okE :: "'a \<Rightarrow> 's \<Rightarrow> (error + 'a) \<times> 's" where
  "okE x s = (Inr x, s)"

definition raiseE :: "error \<Rightarrow> 's \<Rightarrow> (error + 'a) \<times> 's" where
  "raiseE e s = (Inl e, s)"

definition bindE ::
  "('s \<Rightarrow> (error + 'a) \<times> 's) \<Rightarrow> ('a \<Rightarrow> 's \<Rightarrow> (error + 'b) \<times> 's) \<Rightarrow> 's \<Rightarrow> (error + 'b) \<times> 's" where
  "bindE m f s = (case m s of (Inl e, s') \<Rightarrow> (Inl e, s') | (Inr x, s') \<Rightarrow> f x s')"

fun mapE :: "('a \<Rightarrow> error + 'b) \<Rightarrow> 'a list \<Rightarrow> error + 'b list" where
  "mapE f [] = Inr []"
| "mapE f (x # xs) =
     (case f x of
        Inl e \<Rightarrow> Inl e
      | Inr y \<Rightarrow> (case mapE f xs of Inl e \<Rightarrow> Inl e | Inr ys \<Rightarrow> Inr (y # ys)))"

text \<open>Reading an attribute that the object may not have yet.\<close>

definition attr ::
  "('a formula_scheme \<Rightarrow> 'b option) \<Rightarrow> 'a formula_scheme \<times> world
     \<Rightarrow> (error + 'b) \<times> ('a formula_scheme \<times> world)" where
  "attr field_of s =
     (case field_of (fst s) of None \<Rightarrow> (Inl AttributeError, s) | Some v \<Rightarrow> (Inr v, s))"

subsection \<open>Coefficients, mean and design expression\<close>

text \<open>\<open>dict.setdefault\<close> and \<open>d[k]\<close> on a dict kept in insertion order.\<close>

definition setdefault :: "('a \<times> 'b) list \<Rightarrow> 'a \<Rightarrow> 'b \<Rightarrow> ('a \<times> 'b) list" where
  "setdefault d k v = (case map_of d k of None \<Rightarrow> d @ [(k, v)] | Some u \<Rightarrow> d)"

definition dict_get :: "('a \<times> 'b) list \<Rightarrow> 'a \<Rightarrow> error + 'b" where
  "dict_get d k = (case map_of d k of None \<Rightarrow> Inl KeyError | Some v \<Rightarrow> Inr v)"

text \<open>
  \<open>Formula._getcoefs\<close>. One pass of its loop: a \<open>Beta\<close> is created for every term (the
  argument of \<open>setdefault\<close> is evaluated first), kept only for a term seen for the first
  time, and the counter advances either way.
\<close>

definition coefs_step ::
  "string \<Rightarrow> expr \<Rightarrow> (expr \<times> expr) list \<times> nat \<times> world \<Rightarrow> (expr \<times> expr) list \<times> nat \<times> world" where
  "coefs_step ch term acc =
     (case acc of (c, n, w) \<Rightarrow>
        (case new_Beta (ch @ str_nat n) term w of (b, w') \<Rightarrow> (setdefault c term b, Suc n, w')))"

definition getcoefs ::
  "'a formula_scheme \<times> world \<Rightarrow> (expr \<times> expr) list \<times> ('a formula_scheme \<times> world)" where
  "getcoefs s =
     (case s of (self, w) \<Rightarrow>
        (case p_coefs self of
           Some c \<Rightarrow> (c, (self, w))
         | None \<Rightarrow>
             (case fold (coefs_step (char self)) (terms self) ([], p_counter self, w) of
                (c, n, w') \<Rightarrow> (c, (self\<lparr>p_coefs := Some c, p_counter := n\<rparr>, w')))))"

text \<open>
  What a property may evaluate to: \<open>np.sum\<close> of an empty array is the numpy float
  \<open>0.0\<close>, which is not a sympy object; of a non-empty array of expressions it is their
  sum from the left.
\<close>

datatype pyval = NpFloat0 | E expr

definition np_sum :: "'k sympy \<Rightarrow> expr list \<Rightarrow> pyval" where
  "np_sum S ps = (case ps of [] \<Rightarrow> NpFloat0 | q # qs \<Rightarrow> E (foldl (s_add S) q qs))"

text \<open>
  \<open>Formula._getmean\<close>: \<open>b = [self.coefs[term] for term in self.terms]\<close> (a term
  without a coefficient is a \<open>KeyError\<close>), then \<open>np.sum(np.array(b) * self.terms)\<close>.
\<close>

definition mean_val :: "'k sympy \<Rightarrow> (expr \<times> expr) list \<Rightarrow> expr list \<Rightarrow> error + pyval" where
  "mean_val S c ts =
     (case mapE (dict_get c) ts of
        Inl e \<Rightarrow> Inl e
      | Inr b \<Rightarrow> Inr (np_sum S (map2 (s_mul S) b ts)))"

definition getmean ::
  "'k sympy \<Rightarrow> 'a formula_scheme \<times> world \<Rightarrow> (error + pyval) \<times> ('a formula_scheme \<times> world)" where
  "getmean S s = (case getcoefs s of (c, s') \<Rightarrow> (mean_val S c (terms (fst s')), s'))"

text \<open>
  \<open>getparams\<close> and \<open>getterms\<close>. Both collect a set of atoms and sort it with
  \<open>default_sort_key\<close>; the set is kept as a list without repetitions (the order in which
  Python walks a set is not fixed; the sort key tells distinct atoms apart).
  \<open>getparams\<close> passes each entry through \<open>sympify\<close>, \<open>getterms\<close> calls \<open>atoms\<close> on the
  entry itself, which a numpy float does not have.
\<close>

fun sympify_atoms :: "pyval \<Rightarrow> expr list" where
  "sympify_atoms NpFloat0 = [Number 0]"
| "sympify_atoms (E e) = atoms e"

fun atoms_of :: "pyval \<Rightarrow> error + expr list" where
  "atoms_of NpFloat0 = Inl AttributeError"
| "atoms_of (E e) = Inr (atoms e)"

definition getparams :: "('k::linorder) sympy \<Rightarrow> pyval list \<Rightarrow> expr list" where
  "getparams S expression =
     (let atoms_set = remdups (concat (map sympify_atoms expression));
          params = filter (\<lambda>atom. is_symbol atom \<and> \<not> is_term atom) atoms_set
      in sort_key (s_key S) params)"

definition getterms :: "('k::linorder) sympy \<Rightarrow> pyval list \<Rightarrow> error + expr list" where
  "getterms S expression =
     (case mapE atoms_of expression of
        Inl e \<Rightarrow> Inl e
      | Inr as \<Rightarrow> Inr (sort_key (s_key S) (filter is_term (remdups (concat as)))))"

text \<open>
  \<open>Formula._getdiff\<close>, the property \<open>design_expr\<close>. It reads \<open>self.mean\<close> once per
  parameter; after the first read the coefficients are cached and every read gives the
  same value, so the model reads it once.
\<close>

fun pv_diff :: "'k sympy \<Rightarrow> pyval \<Rightarrow> expr \<Rightarrow> expr" where
  "pv_diff S NpFloat0 p = Number 0"
| "pv_diff S (E e) p = s_diff S e p"

definition diff_val :: "('k::linorder) sympy \<Rightarrow> pyval \<Rightarrow> expr list" where
  "diff_val S m =
     (let params = sort_key (s_key S) (remdups (getparams S [m]))
      in map (\<lambda>p. pv_diff S m p) params)"

definition getdiff ::
  "('k::linorder) sympy \<Rightarrow> 'a formula_scheme \<times> world
     \<Rightarrow> (error + expr list) \<times> ('a formula_scheme \<times> world)" where
  "getdiff S = bindE (getmean S) (\<lambda>m. okE (diff_val S m))"

subsection \<open>\<open>Formula._setup_design\<close>\<close>

text \<open>The substitution loops: every entry of \<open>d\<close> has each old symbol replaced in turn.\<close>

definition subs_all :: "'k sympy \<Rightarrow> (expr \<times> expr) list \<Rightarrow> expr list \<Rightarrow> expr list" where
  "subs_all S pairs d = fold (\<lambda>(old, new) d'. map (\<lambda>dj. s_subs S dj old new) d') pairs d"

fun new_Dummies :: "string list \<Rightarrow> world \<Rightarrow> expr list \<times> world" where
  "new_Dummies [] w = ([], w)"
| "new_Dummies (nm # nms) w =
     (case new_Dummy nm w of (p, w') \<Rightarrow>
        (case new_Dummies nms w' of (ps, w'') \<Rightarrow> (p # ps, w'')))"

definition placeholder :: "string \<Rightarrow> nat \<Rightarrow> string" where
  "placeholder c k = ''__'' @ c @ str_nat k @ ''__''"

definition preterm_of :: "'k sympy \<Rightarrow> expr \<Rightarrow> string" where
  "preterm_of S t = (if \<not> is_factor_term t then sym_str S t else factor_name t)"

definition setup_design ::
  "('k::linorder) sympy \<Rightarrow> 'a formula_scheme \<times> world
     \<Rightarrow> (error + unit) \<times> ('a formula_scheme \<times> world)" where
  "setup_design S =
     bindE (getdiff S) (\<lambda>d.
     bindE (\<lambda>(self, w). case randint w of (r, w') \<Rightarrow> (Inr r, (self, w'))) (\<lambda>random_offset.
     bindE (getmean S) (\<lambda>m.
     bindE (\<lambda>s. (getterms S [m], s)) (\<lambda>ts.
       let newterms = map (\<lambda>i. Symbol (placeholder ''t'' (i + random_offset))) [0..<length ts];
           d1 = subs_all S (zip ts newterms) d
       in
     bindE (getdiff S) (\<lambda>de.
       let params = getparams S (map E de);
           pnames = map (\<lambda>i. placeholder ''p'' (i + random_offset)) [0..<length params]
       in
     bindE (\<lambda>(self, w). case new_Dummies pnames w of (ps, w') \<Rightarrow> (Inr ps, (self, w'))) (\<lambda>newparams.
       let d2 = subs_all S (zip params newparams) d1;
           f = \<lparr>f_args = newparams @ newterms, f_body = d2\<rparr>;
           preterm = remdups (map (preterm_of S) ts);
           dts = \<lparr>dt_param = map (sym_str S) params,
                  dt_term = map (sym_str S) ts,
                  dt_preterm = preterm\<rparr>
       in (\<lambda>(self, w).
            (Inr (), (self\<lparr>p_f := Some f, p_dtypes := Some dts, pp_terms := Some ts\<rparr>, w)))))))))"

subsection \<open>Arrays\<close>

text \<open>
  An \<open>ndarray\<close> of \<open>float64\<close>: its shape and its elements in row-major order (floats are
  modelled as reals). A structured array (\<open>recarray\<close>) of one dimension: its field
  names, its row count \<open>shape[0]\<close> and the column behind each field; a cell is a number
  or a text. A parameter record holds one scalar per field.
\<close>

datatype ndarray = Arr (arr_shape: "nat list") (arr_elems: "real list")

datatype cell = FloatCell real | TextCell string

record recarray =
  ra_names :: "string list"
  ra_rows :: nat
  ra_field :: "string \<Rightarrow> cell list"

record pararray =
  pa_names :: "string list"
  pa_field :: "string \<Rightarrow> real"

definition np_ones :: "nat \<Rightarrow> ndarray" where
  "np_ones n = Arr [n] (replicate n 1)"

definition np_multiply_outer :: "ndarray \<Rightarrow> ndarray \<Rightarrow> ndarray" where
  "np_multiply_outer a b =
     Arr (arr_shape a @ arr_shape b)
         (concat (map (\<lambda>x. map (\<lambda>y. x * y) (arr_elems b)) (arr_elems a)))"

definition set_shape :: "ndarray \<Rightarrow> nat list \<Rightarrow> ndarray" where
  "set_shape a sh = Arr sh (arr_elems a)"

text \<open>\<open>a.shape[i]\<close>: an \<open>IndexError\<close> beyond the number of dimensions.\<close>

definition shape_at :: "ndarray \<Rightarrow> nat \<Rightarrow> error + nat" where
  "shape_at a i = (if i < length (arr_shape a) then Inr (arr_shape a ! i) else Inl IndexError)"

text \<open>
  The numeric routines of the array libraries and of \<open>nipy.algorithms.utils.matrices\<close>
  that the module calls, taken as total functions: the call of a lambdified function
  on parameter scalars and term columns (one array per entry of its body), the cast of
  an input column to \<open>float64\<close>, \<open>np.array(rows).T\<close>, \<open>np.squeeze(D.astype(np.float64))\<close>,
  the pseudo-inverse, \<open>np.dot\<close>, \<open>.T\<close>, \<open>matrix_rank\<close>, \<open>full_rank\<close>, \<open>np.squeeze\<close>.
\<close>

record numlib =
  call_f :: "compiled \<Rightarrow> real list \<Rightarrow> real list list \<Rightarrow> ndarray list"
  astype_float :: "cell list \<Rightarrow> real list"
  np_array_T :: "ndarray list \<Rightarrow> ndarray"
  squeeze_float :: "ndarray \<Rightarrow> ndarray"
  np_pinv :: "ndarray \<Rightarrow> ndarray"
  np_dot :: "ndarray \<Rightarrow> ndarray \<Rightarrow> ndarray"
  np_T :: "ndarray \<Rightarrow> ndarray"
  matrix_rank :: "ndarray \<Rightarrow> nat"
  full_rank :: "ndarray \<Rightarrow> nat \<Rightarrow> ndarray"
  np_squeeze :: "ndarray \<Rightarrow> ndarray"

subsection \<open>\<open>contrast_from_cols_or_rows\<close>\<close>

text \<open>
  The test \<open>L.shape[0] != n and L.shape[1] != p\<close>: \<open>and\<close> reads \<open>L.shape[1]\<close> only when
  the first comparison holds.
\<close>

definition shape_mismatch :: "ndarray \<Rightarrow> nat \<Rightarrow> nat \<Rightarrow> error + bool" where
  "shape_mismatch L n p =
     (case shape_at L 0 of
        Inl e \<Rightarrow> Inl e
      | Inr l0 \<Rightarrow>
          if l0 \<noteq> n
          then (case shape_at L 1 of Inl e \<Rightarrow> Inl e | Inr l1 \<Rightarrow> Inr (l1 \<noteq> p))
          else Inr False)"

text \<open>The raw contrast, lines \<open>if L.shape[0] == n: ... else: ...\<close>.\<close>

definition raw_contrast :: "numlib \<Rightarrow> ndarray \<Rightarrow> ndarray \<Rightarrow> ndarray \<Rightarrow> nat \<Rightarrow> ndarray" where
  "raw_contrast N L D pseudo n =
     (if shape_at L 0 = Inr n
      then np_T N (np_dot N pseudo L)
      else np_T N (np_dot N pseudo (np_dot N D (np_T N L))))"

text \<open>The rest of the function, from \<open>Lp = np.dot(D, C.T)\<close> to the return.\<close>

definition rank_repair :: "numlib \<Rightarrow> ndarray \<Rightarrow> ndarray \<Rightarrow> nat \<Rightarrow> ndarray \<Rightarrow> error + ndarray" where
  "rank_repair N D pseudo n C =
     (let Lp0 = np_dot N D (np_T N C);
          Lp = (if length (arr_shape Lp0) = 1 then set_shape Lp0 [n, 1] else Lp0);
          Lp_rank = matrix_rank N Lp
      in case shape_at Lp 1 of
           Inl e \<Rightarrow> Inl e
         | Inr cols \<Rightarrow>
             if Lp_rank \<noteq> cols
             then Inr (np_squeeze N (np_T N (np_dot N pseudo (full_rank N Lp Lp_rank))))
             else Inr (np_squeeze N C))"

definition contrast_from_cols_or_rows ::
  "numlib \<Rightarrow> ndarray \<Rightarrow> ndarray \<Rightarrow> ndarray option \<Rightarrow> error + ndarray" where
  "contrast_from_cols_or_rows N L D pseudo =
     (case arr_shape D of
        [n, p] \<Rightarrow>
          (case shape_mismatch L n p of
             Inl e \<Rightarrow> Inl e
           | Inr True \<Rightarrow> Inl (ValueError ''shape of L and D mismatched'')
           | Inr False \<Rightarrow>
               (let pseudo' = (case pseudo of None \<Rightarrow> np_pinv N D | Some ps \<Rightarrow> ps)
                in rank_repair N D pseudo' n (raw_contrast N L D pseudo' n)))
      | sh \<Rightarrow> Inl (ValueError ''values to unpack''))"

subsection \<open>\<open>Formula.design\<close>\<close>

text \<open>
  What \<open>design\<close> returns: a float array, a structured array (field names and data),
  or the pair of the float design matrix and the contrast matrices by key.
\<close>

datatype result =
    FloatResult ndarray
  | RecResult "string list" ndarray
  | WithContrasts ndarray "(string \<times> ndarray) list"

fun result_array :: "result \<Rightarrow> ndarray" where
  "result_array (FloatResult a) = a"
| "result_array (RecResult ns a) = a"
| "result_array (WithContrasts a cm) = a"

text \<open>
  The body of \<open>design\<close> up to the contrast loop ends in one of two ways: the pure
  intercept returns at once, everything else goes on with \<open>D\<close> and, when contrasts were
  asked for, \<open>_D\<close> and \<open>pinvD\<close>.
\<close>

datatype main_out = Early result | Full result "(ndarray \<times> ndarray) option"

text \<open>
  The column that \<open>design\<close> writes into \<open>term_recarray\<close> for one term: the input column
  of a plain term, the indicator of its level for a factor term (\<open>x == t.level\<close>, stored
  as \<open>1.0\<close> or \<open>0.0\<close>).
\<close>

fun cell_eq_level :: "cell \<Rightarrow> level \<Rightarrow> bool" where
  "cell_eq_level (FloatCell x) (LInt i) = (x = of_int i)"
| "cell_eq_level (TextCell s) (LStr l) = (s = l)"
| "cell_eq_level c l = False"

definition term_column :: "'k sympy \<Rightarrow> numlib \<Rightarrow> recarray \<Rightarrow> expr \<Rightarrow> real list" where
  "term_column S N input t =
     (if \<not> is_factor_term t then astype_float N (ra_field input (sym_str S t))
      else map (\<lambda>x. if cell_eq_level x (level_of t) then 1 else 0)
               (ra_field input (factor_name t)))"

text \<open>The shape fix of the evaluator's output: scalars are spread over the rows.\<close>

definition fix_row_shape :: "nat \<Rightarrow> ndarray \<Rightarrow> ndarray" where
  "fix_row_shape n row =
     (if arr_shape row = [] \<or> arr_shape row = [1]
      then np_multiply_outer (set_shape row []) (np_ones n)
      else row)"

text \<open>Lines from \<open>term_recarray = np.zeros(...)\<close> to the end of the dtype correction.\<close>

definition design_general ::
  "('k::linorder) sympy \<Rightarrow> numlib \<Rightarrow> recarray \<Rightarrow> pararray option \<Rightarrow> bool \<Rightarrow> bool \<Rightarrow> dtypes
     \<Rightarrow> 'a formula_scheme \<times> world \<Rightarrow> (error + main_out) \<times> ('a formula_scheme \<times> world)" where
  "design_general S N input param return_float has_contrasts dts =
     bindE (attr pp_terms) (\<lambda>ts.
     bindE (attr p_f) (\<lambda>f.
       let float_tuple = map (term_column S N input) ts;
           pvals = (case param of None \<Rightarrow> [] | Some pr \<Rightarrow> map (pa_field pr) (dt_param dts))
       in if length pvals + length float_tuple \<noteq> length (f_args f) then raiseE TypeError
          else
            (let D_tuple = map (fix_row_shape (ra_rows input)) (call_f N f pvals float_tuple);
                 D = np_array_T N D_tuple
             in if return_float \<or> has_contrasts
                then (let D' = squeeze_float N D
                      in if has_contrasts
                         then (let D2 = (if length (arr_shape D') = 1
                                         then set_shape D' [arr_shape D' ! 0, 1] else D')
                               in okE (Full (FloatResult D') (Some (D2, np_pinv N D2))))
                         else okE (Full (FloatResult D') None))
                else bindE (getdiff S) (\<lambda>de.
                       okE (Full (RecResult (map (sym_str S) de) D) None)))))"

definition design_main ::
  "('k::linorder) sympy \<Rightarrow> numlib \<Rightarrow> recarray \<Rightarrow> pararray option \<Rightarrow> bool \<Rightarrow> bool
     \<Rightarrow> 'a formula_scheme \<times> world \<Rightarrow> (error + main_out) \<times> ('a formula_scheme \<times> world)" where
  "design_main S N input param return_float has_contrasts =
     bindE (setup_design S) (\<lambda>u.
     bindE (attr p_dtypes) (\<lambda>dts.
       if \<not> set (dt_preterm dts) \<subseteq> set (ra_names input)
       then raiseE (ValueError ''for term, expecting a recarray with dtype having the following names: '')
       else if (case param of None \<Rightarrow> False
                | Some pr \<Rightarrow> \<not> set (dt_param dts) \<subseteq> set (pa_names pr))
       then raiseE (ValueError ''for param, expecting a recarray with dtype having the following names: '')
       else (\<lambda>s.
         if terms (fst s) = [Number 1]
         then (let a = np_ones (ra_rows input)
               in okE (Early (if \<not> return_float then RecResult [''intercept''] a
                              else FloatResult a)) s)
         else if dt_term dts = []
         then raiseE (ValueError ''none of the expressions in self.terms are Term instances; shape of resulting undefined'') s
         else design_general S N input param return_float has_contrasts dts s)))"

text \<open>
  A value of the \<open>contrasts\<close> dict: a Formula, or anything else, which is wrapped as
  \<open>Formula([cf])\<close>. The loop evaluates each contrast formula with
  \<open>return_float=True\<close> and no contrasts of its own, so that call is \<open>design_main\<close>; it
  runs on the contrast formula (a different object from \<open>self\<close>) and on the same world.
\<close>

datatype cobj = CFormula formula | CExpr expr

fun main_result :: "main_out \<Rightarrow> result" where
  "main_result (Early a) = a"
| "main_result (Full D x) = D"

fun contrast_loop ::
  "('k::linorder) sympy \<Rightarrow> numlib \<Rightarrow> recarray \<Rightarrow> pararray option \<Rightarrow> ndarray \<Rightarrow> ndarray
     \<Rightarrow> (string \<times> cobj) list \<Rightarrow> 'a formula_scheme \<times> world
     \<Rightarrow> (error + (string \<times> ndarray) list) \<times> ('a formula_scheme \<times> world)" where
  "contrast_loop S N input param D2 pinvD [] s = (Inr [], s)"
| "contrast_loop S N input param D2 pinvD ((key, cf) # rest) s =
     (let cf' = (case cf of CFormula g \<Rightarrow> g | CExpr e \<Rightarrow> Formula_init [e] ''b'')
      in case design_main S N input param True False (cf', snd s) of
           (Inl e, s') \<Rightarrow> (Inl e, (fst s, snd s'))
         | (Inr out, s') \<Rightarrow>
             (case contrast_from_cols_or_rows N (result_array (main_result out)) D2 (Some pinvD) of
                Inl e \<Rightarrow> (Inl e, (fst s, snd s'))
              | Inr C \<Rightarrow>
                  (case contrast_loop S N input param D2 pinvD rest (fst s, snd s') of
                     (Inl e, s'') \<Rightarrow> (Inl e, s'')
                   | (Inr cm, s'') \<Rightarrow> (Inr ((key, C) # cm), s''))))"

definition design ::
  "('k::linorder) sympy \<Rightarrow> numlib \<Rightarrow> recarray \<Rightarrow> pararray option \<Rightarrow> bool
     \<Rightarrow> (string \<times> cobj) list option
     \<Rightarrow> 'a formula_scheme \<times> world \<Rightarrow> (error + result) \<times> ('a formula_scheme \<times> world)" where
  "design S N input param return_float contrasts =
     (let cs = (case contrasts of None \<Rightarrow> [] | Some c \<Rightarrow> c)
      in bindE (design_main S N input param return_float (cs \<noteq> [])) (\<lambda>out.
           case out of
             Early a \<Rightarrow> okE a
           | Full D None \<Rightarrow> okE D
           | Full D (Some (D2, pinvD)) \<Rightarrow>
               bindE (contrast_loop S N input param D2 pinvD cs) (\<lambda>cmatrices.
                 okE (WithContrasts (result_array D) cmatrices))))"

subsection \<open>Well-formed instances\<close>

text \<open>
  The coefficient cache is only ever written by \<open>_getcoefs\<close>, which binds every term
  of the Formula to a \<open>Beta\<close>. An object whose cache is still absent, or holds such
  bindings for all its terms, is what the class's own methods can produce.
\<close>

fun is_Beta :: "expr \<Rightarrow> bool" where
  "is_Beta (Beta nm i t) = True"
| "is_Beta e = False"

definition coefs_wf :: "'a formula_scheme \<Rightarrow> bool" where
  "coefs_wf self =
     (case p_coefs self of
        None \<Rightarrow> True
      | Some c \<Rightarrow>
          list_all (\<lambda>t. case map_of c t of None \<Rightarrow> False | Some b \<Rightarrow> is_Beta b) (terms self))"

text \<open>The schemas that a call of \<open>design\<close> works with: those its own setup stores.\<close>

definition schemas_of ::
  "('k::linorder) sympy \<Rightarrow> 'a formula_scheme \<times> world \<Rightarrow> dtypes option" where
  "schemas_of S s = p_dtypes (fst (snd (setup_design S s)))"

subsection \<open>An engine, numerics and inputs for the examples\<close>

text \<open>
  A small symbolic engine, enough for formulas that are sums of coefficient times
  term: products drop a factor \<open>1\<close>, the derivative of a product of two factors by one
  of them is the other, substitution is structural, the sort key is the length of the
  printed form.
\<close>

definition ex_mul :: "expr \<Rightarrow> expr \<Rightarrow> expr" where
  "ex_mul a b = (if b = Number 1 then a else if a = Number 1 then b else Apply ''Mul'' [a, b])"

definition ex_add :: "expr \<Rightarrow> expr \<Rightarrow> expr" where
  "ex_add a b = Apply ''Add'' [a, b]"

definition ex_sub :: "expr \<Rightarrow> expr \<Rightarrow> expr" where
  "ex_sub a b = Apply ''Add'' [a, Apply ''Mul'' [Number (- 1), b]]"

definition ex_join :: "expr \<Rightarrow> expr \<Rightarrow> expr" where
  "ex_join a b = (if a = Number 0 then b else if b = Number 0 then a else Apply ''Add'' [a, b])"

fun ex_diff :: "expr \<Rightarrow> expr \<Rightarrow> expr" where
  "ex_diff (Apply f [a, b]) p =
     (if f = ''Mul'' then (if a = p then b else if b = p then a else Number 0)
      else if f = ''Add'' then ex_join (ex_diff a p) (ex_diff b p)
      else Number 0)"
| "ex_diff e p = (if e = p then Number 1 else Number 0)"

fun ex_subs :: "expr \<Rightarrow> expr \<Rightarrow> expr \<Rightarrow> expr" where
  "ex_subs (Apply f args) old new =
     (if Apply f args = old then new else Apply f (map (\<lambda>a. ex_subs a old new) args))"
| "ex_subs e old new = (if e = old then new else e)"

fun ex_str :: "expr \<Rightarrow> string" where
  "ex_str (Number i) = str_int i"
| "ex_str (Symbol n) = n"
| "ex_str (Term n) = n"
| "ex_str (FactorTerm n l) = n @ ''_'' @ to_str l"
| "ex_str (Dummy n i) = CHR ''_'' # n"
| "ex_str (Beta n i t) = CHR ''_'' # n"
| "ex_str (Apply f args) = f @ ''('' @ concat (map (\<lambda>a. ex_str a @ '','') args) @ '')''"

definition ex_sympy :: "nat sympy" where
  "ex_sympy =
     \<lparr>s_add = ex_add, s_mul = ex_mul, s_sub = ex_sub, s_diff = ex_diff, s_subs = ex_subs,
      s_str = ex_str, s_key = (\<lambda>e. length (ex_str e))\<rparr>"

text \<open>
  Numerics for the examples, on arrays of one and two dimensions: a lambdified
  function whose body entries are its own arguments returns those columns (a constant
  for anything else), stacking and transposition are exact, and the pseudo-inverse,
  the rank and the rank reduction are those of a matrix with orthonormal non-zero
  columns (the transpose, the number of non-zero columns, the non-zero columns).
\<close>

definition ex_rows :: "ndarray \<Rightarrow> real list list" where
  "ex_rows a =
     (case arr_shape a of
        [r, c] \<Rightarrow> map (\<lambda>i. take c (drop (i * c) (arr_elems a))) [0..<r]
      | sh \<Rightarrow> map (\<lambda>x. [x]) (arr_elems a))"

definition ex_of_rows :: "nat \<Rightarrow> real list list \<Rightarrow> ndarray" where
  "ex_of_rows c rs = Arr [length rs, c] (concat rs)"

definition ex_T :: "ndarray \<Rightarrow> ndarray" where
  "ex_T a =
     (case arr_shape a of
        [r, c] \<Rightarrow> ex_of_rows r (map (\<lambda>j. map (\<lambda>row. row ! j) (ex_rows a)) [0..<c])
      | sh \<Rightarrow> a)"

definition ex_dot :: "ndarray \<Rightarrow> ndarray \<Rightarrow> ndarray" where
  "ex_dot a b =
     (let cols = ex_rows (ex_T (Arr [length (ex_rows b), length (hd (ex_rows b))] (concat (ex_rows b))));
          prod = map (\<lambda>row. map (\<lambda>col. sum_list (map2 (\<lambda>x y. x * y) row col)) cols) (ex_rows a)
      in if length (arr_shape b) = 1 then Arr [length prod] (concat prod)
         else ex_of_rows (length cols) prod)"

definition ex_squeeze :: "ndarray \<Rightarrow> ndarray" where
  "ex_squeeze a = Arr (filter (\<lambda>d. d \<noteq> 1) (arr_shape a)) (arr_elems a)"

definition ex_nonzero_cols :: "ndarray \<Rightarrow> real list list" where
  "ex_nonzero_cols a = filter (\<lambda>col. \<not> list_all (\<lambda>x. x = 0) col) (ex_rows (ex_T a))"

definition ex_call :: "compiled \<Rightarrow> real list \<Rightarrow> real list list \<Rightarrow> ndarray list" where
  "ex_call f pvals cols =
     (let vals = map (\<lambda>x. Arr [] [x]) pvals @ map (\<lambda>c. Arr [length c] c) cols
      in map (\<lambda>e. case map_of (zip (f_args f) vals) e of None \<Rightarrow> Arr [] [1] | Some v \<Rightarrow> v)
             (f_body f))"

definition ex_numlib :: numlib where
  "ex_numlib =
     \<lparr>call_f = ex_call,
      astype_float = map (\<lambda>c. case c of FloatCell x \<Rightarrow> x | TextCell t \<Rightarrow> 0),
      np_array_T = (\<lambda>rows. ex_T (ex_of_rows (length (arr_elems (hd rows))) (map arr_elems rows))),
      squeeze_float = ex_squeeze,
      np_pinv = ex_T,
      np_dot = ex_dot,
      np_T = ex_T,
      matrix_rank = (\<lambda>a. length (ex_nonzero_cols a)),
      full_rank = (\<lambda>a r. ex_T (ex_of_rows (hd (arr_shape a)) (take r (ex_nonzero_cols a)))),
      np_squeeze = ex_squeeze\<rparr>"

text \<open>
  Two observations of a field \<open>x\<close>; a generator that will draw 5, 9, 13, ...; the
  Formula of the single term \<open>x\<close>, and the states after one and after two calls of
  \<open>design\<close> on it.
\<close>

definition ex_obs :: recarray where
  "ex_obs =
     \<lparr>ra_names = [''x''], ra_rows = 2,
      ra_field = (\<lambda>n. if n = ''x'' then [FloatCell 3, FloatCell 4] else [])\<rparr>"

definition ex_world :: world where
  "ex_world = \<lparr>rng_draws = (\<lambda>i. 5 + 4 * i), rng_pos = 0, dummy_count = 0\<rparr>"

definition ex_formula :: formula where
  "ex_formula = Formula_init [Term ''x''] ''b''"

definition ex_after_first :: "formula \<times> world" where
  "ex_after_first = snd (design ex_sympy ex_numlib ex_obs None True None (ex_formula, ex_world))"

definition ex_after_second :: "formula \<times> world" where
  "ex_after_second = snd (design ex_sympy ex_numlib ex_obs None True None ex_after_first)"

section \<open>Properties\<close>

subsection \<open>Auxiliary facts\<close>

lemma terms_eq: "terms self = p_terms self"
  by (simp add: terms_def)

lemma count_list_filter_notin:
  "count_list (filter (\<lambda>t. t \<notin> U) xs) t = (if t \<in> U then 0 else count_list xs t)"
  by (induction xs) auto

lemma list_all_zip_eq:
  "length xs = length ys \<Longrightarrow> list_all (\<lambda>(a, b). a = b) (zip xs ys) \<longleftrightarrow> xs = ys"
  by (induction xs ys rule: list_induct2) auto

lemma np_round_Ints: "np_round x \<in> \<int>"
  by (simp add: np_round_def Let_def)

lemma np_round_fix: "x = np_round x \<longleftrightarrow> x \<in> \<int>"
proof
  assume "x = np_round x"
  then show "x \<in> \<int>" using np_round_Ints [of x] by simp
next
  assume "x \<in> \<int>"
  then obtain k :: int where "x = of_int k" by (auto elim: Ints_cases)
  then show "x = np_round x" by (simp add: np_round_def)
qed

lemma astype_int_Ints: "x \<in> \<int> \<Longrightarrow> astype_int x = \<lfloor>x\<rfloor>"
  by (auto simp: astype_int_def elim: Ints_cases)

subsection \<open>Term and FactorTerm arithmetic\<close>

text \<open>
  Claim C6. For every Term \<open>t\<close>, \<open>t + t == t\<close>, and \<open>t\<close> plus a different expression is
  sympy's sum; for every FactorTerm \<open>f\<close>, \<open>f * f == f\<close>, and \<open>f\<close> times a different
  expression is sympy's product.
\<close>

theorem Term_self_add_FactorTerm_self_mul:
  "(is_term t \<longrightarrow> py_add S t t = t)
   \<and> (is_term t \<and> t \<noteq> e \<longrightarrow> py_add S t e = s_add S t e)
   \<and> (is_factor_term f \<longrightarrow> py_mul S f f = f)
   \<and> (is_factor_term f \<and> f \<noteq> e \<longrightarrow> py_mul S f e = s_mul S f e)"
  by (simp add: py_add_def py_mul_def Term_add_def FactorTerm_mul_def)

theorem Term_self_add_FactorTerm_self_mul_witness:
  "is_term (Term ''x'')
   \<and> py_add ex_sympy (Term ''x'') (Term ''x'') = Term ''x''
   \<and> Term ''x'' \<noteq> Symbol ''y''
   \<and> py_add ex_sympy (Term ''x'') (Symbol ''y'') = s_add ex_sympy (Term ''x'') (Symbol ''y'')
   \<and> is_factor_term (FactorTerm ''f'' (LInt 1))
   \<and> py_mul ex_sympy (FactorTerm ''f'' (LInt 1)) (FactorTerm ''f'' (LInt 1)) = FactorTerm ''f'' (LInt 1)
   \<and> is_term (FactorTerm ''f'' (LInt 1))
   \<and> py_add ex_sympy (FactorTerm ''f'' (LInt 1)) (FactorTerm ''f'' (LInt 1)) = FactorTerm ''f'' (LInt 1)
   \<and> FactorTerm ''f'' (LInt 1) \<noteq> Symbol ''y''
   \<and> py_mul ex_sympy (FactorTerm ''f'' (LInt 1)) (Symbol ''y'')
       = s_mul ex_sympy (FactorTerm ''f'' (LInt 1)) (Symbol ''y'')"
  using Term_self_add_FactorTerm_self_mul
          [where t = "Term ''x''" and S = ex_sympy and e = "Symbol ''y''"
             and f = "FactorTerm ''f'' (LInt 1)"]
        Term_self_add_FactorTerm_self_mul
          [where t = "FactorTerm ''f'' (LInt 1)" and S = ex_sympy and e = "Symbol ''y''"
             and f = "FactorTerm ''f'' (LInt 1)"]
  by simp

subsection \<open>Formula subtraction and equality\<close>

text \<open>
  Claim C5. \<open>A - B\<close> is a Formula whose terms are exactly the terms of \<open>A\<close> that do
  not occur among the terms of \<open>B\<close>, in the order of \<open>A\<close>; terms of \<open>B\<close> that \<open>A\<close> lacks
  raise nothing; a term that occurs in \<open>B\<close> loses every occurrence in \<open>A\<close>, whatever
  its multiplicity, and every other term keeps its multiplicity.
\<close>

theorem Formula_sub_removes_all:
  "\<exists>F. Formula_sub A (PyFormula B) = Inr F
     \<and> terms F = filter (\<lambda>t. t \<notin> set (terms B)) (terms A)
     \<and> subseq (terms F) (terms A)
     \<and> set (terms F) = set (terms A) - set (terms B)
     \<and> (\<forall>t. count_list (terms F) t = (if t \<in> set (terms B) then 0 else count_list (terms A) t))"
  by (auto simp: Formula_sub_def Let_def terms_eq Formula_init_def count_list_filter_notin)

theorem Formula_sub_removes_all_witness:
  "\<exists>F. Formula_sub (Formula_init [Term ''x'', Term ''y'', Term ''x'', Term ''z''] ''b'')
          (PyFormula (Formula_init [Term ''x'', Term ''w''] ''c'')) = Inr F
     \<and> terms F = [Term ''y'', Term ''z'']
     \<and> count_list (terms F) (Term ''x'') = 0
     \<and> count_list (terms F) (Term ''y'') = 1"
  using Formula_sub_removes_all
          [of "Formula_init [Term ''x'', Term ''y'', Term ''x'', Term ''z''] ''b''"
              "Formula_init [Term ''x'', Term ''w''] ''c''"]
  by (auto simp: terms_eq Formula_init_def)

text \<open>
  Claim C10. \<open>A == B\<close> holds exactly when the two term arrays have the same shape and
  are equal position by position, that is when the term sequences are equal; the
  coefficient character, the coefficient cache and the counter play no part.
\<close>

theorem Formula_eq_terms_only:
  "(Formula_eq A B \<longleftrightarrow>
      np_shape (terms A) = np_shape (terms B) \<and> (\<forall>i < length (terms A). terms A ! i = terms B ! i))
   \<and> (Formula_eq A B \<longleftrightarrow> terms A = terms B)
   \<and> Formula_eq (A\<lparr>char := c, p_coefs := m, p_counter := k\<rparr>) B = Formula_eq A B
   \<and> Formula_eq A (B\<lparr>char := c, p_coefs := m, p_counter := k\<rparr>) = Formula_eq A B"
  by (auto simp: Formula_eq_def np_shape_def Let_def terms_eq list_all_zip_eq list_eq_iff_nth_eq)

theorem Formula_eq_terms_only_witness:
  "Formula_eq (Formula_init [Term ''x'', Number 1] ''b'')
      ((Formula_init [Term ''x'', Number 1] ''c'')\<lparr>p_coefs := Some [(Term ''x'', Symbol ''q'')]\<rparr>)
   \<and> \<not> Formula_eq (Formula_init [Term ''x'', Number 1] ''b'') (Formula_init [Number 1, Term ''x''] ''b'')
   \<and> \<not> Formula_eq (Formula_init [Term ''x''] ''b'') (Formula_init [Term ''x'', Term ''x''] ''b'')"
  using Formula_eq_terms_only
          [of "Formula_init [Term ''x'', Number 1] ''b''"
              "(Formula_init [Term ''x'', Number 1] ''c'')\<lparr>p_coefs := Some [(Term ''x'', Symbol ''q'')]\<rparr>",
           THEN conjunct2, THEN conjunct1]
        Formula_eq_terms_only
          [of "Formula_init [Term ''x'', Number 1] ''b''" "Formula_init [Number 1, Term ''x''] ''b''",
           THEN conjunct2, THEN conjunct1]
        Formula_eq_terms_only
          [of "Formula_init [Term ''x''] ''b''" "Formula_init [Term ''x'', Term ''x''] ''b''",
           THEN conjunct2, THEN conjunct1]
  by (simp add: terms_eq Formula_init_def)

subsection \<open>Factor\<close>

text \<open>
  Claim C3 as stated fails: \<open>Factor('a', [2, 1, 2])\<close> has three terms, for the levels
  2, 1, 2 in that order: the levels are neither deduplicated nor sorted.
\<close>

theorem Factor_init_keeps_duplicates_counterexample:
  "Factor_init ''a'' (NumSeq [2, 1, 2]) ''b''
     = Inr (Factor_of_levels ''a'' [LInt 2, LInt 1, LInt 2] ''b'')
   \<and> terms (Factor_of_levels ''a'' [LInt 2, LInt 1, LInt 2] ''b'')
     = [FactorTerm ''a'' (LInt 2), FactorTerm ''a'' (LInt 1), FactorTerm ''a'' (LInt 2)]
   \<and> levels (Factor_of_levels ''a'' [LInt 2, LInt 1, LInt 2] ''b'') = [LInt 2, LInt 1, LInt 2]"
  by (simp add: Factor_init_def Factor_of_levels_def np_round_def astype_int_def terms_eq
      Formula_init_def formula.extend_def)

text \<open>
  Claim C3, amended. \<open>Factor(name, levels)\<close> has one FactorTerm per element of
  \<open>levels\<close>, in the order given, duplicates included. Numeric levels are coerced to
  integers, and the construction fails with a \<open>ValueError\<close> exactly when some numeric
  level is not integral; textual levels never fail.
\<close>

theorem Factor_init_terms:
  "Factor_init nm (NumSeq xs) ch =
     (if \<forall>x \<in> set xs. x \<in> \<int>
      then Inr (Factor_of_levels nm (map (\<lambda>x. LInt \<lfloor>x\<rfloor>) xs) ch)
      else Inl (ValueError ''levels must be strings or ints''))
   \<and> Factor_init nm (TextSeq ss) ch = Inr (Factor_of_levels nm (map LStr ss) ch)
   \<and> terms (Factor_of_levels nm lv ch) = map (FactorTerm nm) lv
   \<and> levels (Factor_of_levels nm lv ch) = lv
   \<and> length (terms (Factor_of_levels nm lv ch)) = length lv"
proof -
  have a: "list_all (\<lambda>x. x = np_round x) xs \<longleftrightarrow> (\<forall>x \<in> set xs. x \<in> \<int>)"
    by (simp add: list_all_iff np_round_fix)
  have b: "(\<forall>x \<in> set xs. x \<in> \<int>) \<Longrightarrow> map (\<lambda>x. LInt (astype_int x)) xs = map (\<lambda>x. LInt \<lfloor>x\<rfloor>) xs"
    by (simp add: astype_int_Ints)
  show ?thesis
    using a b
    by (simp add: Factor_init_def Factor_of_levels_def terms_eq Formula_init_def formula.extend_def)
qed

theorem Factor_init_terms_witness:
  "(3 :: real) \<in> \<int> \<and> (1 :: real) \<in> \<int>
   \<and> Factor_init ''a'' (NumSeq [3, 1, 3]) ''b''
       = Inr (Factor_of_levels ''a'' [LInt 3, LInt 1, LInt 3] ''b'')
   \<and> (3 / 2 :: real) \<notin> \<int>
   \<and> Factor_init ''a'' (NumSeq [1, 3 / 2]) ''b'' = Inl (ValueError ''levels must be strings or ints'')"
proof -
  have h: "(3 / 2 :: real) \<notin> \<int>"
  proof
    assume "(3 / 2 :: real) \<in> \<int>"
    then obtain k :: int where k: "(3 / 2 :: real) = of_int k" by (auto elim: Ints_cases)
    then have "(3 :: real) = of_int (2 * k)" by simp
    then have "(3 :: int) = 2 * k" using of_int_eq_iff [of 3 "2 * k", where ?'a = real] by simp
    then show False by presburger
  qed
  show ?thesis
    using Factor_init_terms [of "''a''" "[3, 1, 3]" "''b''"]
          Factor_init_terms [of "''a''" "[1, 3 / 2]" "''b''"] h
    by simp
qed

text \<open>
  Claim C7 as stated fails for a Factor without levels: \<open>Factor('a', [])\<close> is built
  without error, and its \<open>main_effect\<close> raises \<open>IndexError\<close> (\<open>v[-1]\<close> on the empty
  list) where the claim promises a Formula.
\<close>

theorem main_effect_empty_counterexample:
  "Factor_init ''a'' (NumSeq []) ''b'' = Inr (Factor_of_levels ''a'' [] ''b'')
   \<and> main_effect ex_sympy (Factor_of_levels ''a'' [] ''b'') = Inl IndexError"
  by (simp add: Factor_init_def main_effect_def getmaineffect_def py_index_def
      Factor_of_levels_def Formula_init_def formula.extend_def)

text \<open>
  Claim C7, amended. For a Factor with \<open>k \<ge> 1\<close> levels, \<open>main_effect\<close> (reference
  \<open>-1\<close>, the last term) is a Formula with \<open>k - 1\<close> terms: each term but the last, minus
  the last, in order. For any reference position within range, the term at that
  position is removed and every other term is re-expressed as its difference from it.
\<close>

theorem main_effect_deviations:
  "(p_terms F \<noteq> [] \<longrightarrow>
      main_effect S F
        = Inr (Formula_init (map (\<lambda>vv. s_sub S vv (last (p_terms F))) (butlast (p_terms F))) ''b'')
      \<and> length (map (\<lambda>vv. s_sub S vv (last (p_terms F))) (butlast (p_terms F)))
          = length (p_terms F) - 1)
   \<and> (- int (length (p_terms F)) \<le> ref \<and> ref < int (length (p_terms F)) \<longrightarrow>
      (\<exists>M k. getmaineffect S F ref = Inr M \<and> py_index (p_terms F) ref = Inr k
         \<and> k < length (p_terms F)
         \<and> length (terms M) = length (p_terms F) - 1
         \<and> terms M = map (\<lambda>vv. s_sub S vv (p_terms F ! k))
                          (take k (p_terms F) @ drop (Suc k) (p_terms F))))"
proof -
  have a: "p_terms F \<noteq> [] \<Longrightarrow> py_index (p_terms F) (- 1) = Inr (length (p_terms F) - 1)"
    by (cases "p_terms F") (auto simp: py_index_def Let_def)
  have b: "xs \<noteq> [] \<Longrightarrow> list_pop xs (length xs - 1) = butlast xs" for xs :: "expr list"
    by (simp add: list_pop_def butlast_conv_take)
  have c: "p_terms F \<noteq> [] \<Longrightarrow>
      main_effect S F
        = Inr (Formula_init (map (\<lambda>vv. s_sub S vv (last (p_terms F))) (butlast (p_terms F))) ''b'')"
    using a b [of "p_terms F"]
    by (simp add: main_effect_def getmaineffect_def Let_def last_conv_nth)
  show ?thesis
    using c
    by (auto simp: getmaineffect_def py_index_def Let_def list_pop_def terms_eq Formula_init_def)
qed

theorem main_effect_deviations_witness:
  "p_terms (Factor_of_levels ''a'' [LInt 1, LInt 2, LInt 3] ''b'') \<noteq> []
   \<and> main_effect ex_sympy (Factor_of_levels ''a'' [LInt 1, LInt 2, LInt 3] ''b'')
       = Inr (Formula_init
               [ex_sub (FactorTerm ''a'' (LInt 1)) (FactorTerm ''a'' (LInt 3)),
                ex_sub (FactorTerm ''a'' (LInt 2)) (FactorTerm ''a'' (LInt 3))] ''b'')"
  using main_effect_deviations
          [of "Factor_of_levels ''a'' [LInt 1, LInt 2, LInt 3] ''b''" ex_sympy 0]
  by (simp add: Factor_of_levels_def Formula_init_def formula.extend_def ex_sympy_def)

subsection \<open>The shape check of \<open>contrast_from_cols_or_rows\<close>\<close>

text \<open>
  Claim C9. For a design matrix \<open>D\<close> of shape \<open>n \<times> p\<close>, the shape-mismatch error is
  raised exactly when \<open>L.shape[0] \<noteq> n\<close> and \<open>L.shape[1] \<noteq> p\<close>, and no other
  \<open>ValueError\<close> is raised; when \<open>L.shape[0] = n\<close>, and so also when both dimensions
  match, the contrast is computed from the column-space form \<open>(pinv(D) \<cdot> L)\<^sup>T\<close>.
\<close>

theorem contrast_shape_mismatch_iff:
  assumes "arr_shape D = [n, p]"
  shows "(contrast_from_cols_or_rows N L D pseudo = Inl (ValueError ''shape of L and D mismatched'')
            \<longleftrightarrow> (\<exists>r c rest. arr_shape L = r # c # rest \<and> r \<noteq> n \<and> c \<noteq> p))
         \<and> ((\<exists>m. contrast_from_cols_or_rows N L D pseudo = Inl (ValueError m))
            \<longleftrightarrow> (\<exists>r c rest. arr_shape L = r # c # rest \<and> r \<noteq> n \<and> c \<noteq> p))
         \<and> ((\<exists>c rest. arr_shape L = n # c # rest) \<longrightarrow>
              raw_contrast N L D (case pseudo of None \<Rightarrow> np_pinv N D | Some ps \<Rightarrow> ps) n
                = np_T N (np_dot N (case pseudo of None \<Rightarrow> np_pinv N D | Some ps \<Rightarrow> ps) L)
              \<and> contrast_from_cols_or_rows N L D pseudo
                = rank_repair N D (case pseudo of None \<Rightarrow> np_pinv N D | Some ps \<Rightarrow> ps) n
                    (np_T N (np_dot N (case pseudo of None \<Rightarrow> np_pinv N D | Some ps \<Rightarrow> ps) L)))"
proof -
  have rr: "rank_repair N D ps n C \<noteq> Inl (ValueError m)" for ps C m
    by (simp add: rank_repair_def Let_def shape_at_def)
  show ?thesis
  proof (cases "arr_shape L")
    case Nil
    then show ?thesis
      using assms by (simp add: contrast_from_cols_or_rows_def shape_mismatch_def shape_at_def)
  next
    case (Cons r sh)
    show ?thesis
    proof (cases sh)
      case Nil
      then show ?thesis
        using assms Cons rr
        by (auto simp: contrast_from_cols_or_rows_def shape_mismatch_def shape_at_def Let_def
            raw_contrast_def)
    next
      case (Cons c rest)
      then show ?thesis
        using assms \<open>arr_shape L = r # sh\<close> rr
        by (auto simp: contrast_from_cols_or_rows_def shape_mismatch_def shape_at_def Let_def
            raw_contrast_def)
    qed
  qed
qed

theorem contrast_shape_mismatch_iff_witness:
  "arr_shape (Arr [3, 2] [1, 0, 0, 1, 0, 0]) = [3, 2]
   \<and> contrast_from_cols_or_rows ex_numlib (Arr [4, 5] []) (Arr [3, 2] [1, 0, 0, 1, 0, 0]) None
       = Inl (ValueError ''shape of L and D mismatched'')
   \<and> contrast_from_cols_or_rows ex_numlib (Arr [3, 2] [1, 0, 0, 1, 0, 0]) (Arr [3, 2] [1, 0, 0, 1, 0, 0]) None
       = rank_repair ex_numlib (Arr [3, 2] [1, 0, 0, 1, 0, 0]) (np_pinv ex_numlib (Arr [3, 2] [1, 0, 0, 1, 0, 0])) 3
           (np_T ex_numlib (np_dot ex_numlib (np_pinv ex_numlib (Arr [3, 2] [1, 0, 0, 1, 0, 0]))
              (Arr [3, 2] [1, 0, 0, 1, 0, 0])))"
  using contrast_shape_mismatch_iff
          [of "Arr [3, 2] [1, 0, 0, 1, 0, 0]" 3 2 ex_numlib "Arr [4, 5] []" None]
        contrast_shape_mismatch_iff
          [of "Arr [3, 2] [1, 0, 0, 1, 0, 0]" 3 2 ex_numlib "Arr [3, 2] [1, 0, 0, 1, 0, 0]" None]
  by simp

subsection \<open>State carried through the properties\<close>

lemma fold_coefs_step_world:
  "fold (coefs_step ch) ts (c, n, w) = (c', n', w') \<Longrightarrow>
     rng_pos w' = rng_pos w \<and> rng_draws w' = rng_draws w"
proof (induction ts arbitrary: c n w)
  case Nil
  then show ?case by simp
next
  case (Cons t ts)
  then show ?case
    by (auto simp: coefs_step_def new_Beta_def split: prod.splits)
qed

lemma getcoefs_cached: "p_coefs self = Some c \<Longrightarrow> getcoefs (self, w) = (c, (self, w))"
  by (simp add: getcoefs_def)

lemma getcoefs_props:
  assumes "getcoefs (self, w) = (c, (self1, w1))"
  shows "p_coefs self1 = Some c" and "p_terms self1 = p_terms self"
    and "rng_pos w1 = rng_pos w" and "rng_draws w1 = rng_draws w"
    and "p_f self1 = p_f self" and "p_dtypes self1 = p_dtypes self"
    and "pp_terms self1 = pp_terms self" and "char self1 = char self"
  using assms fold_coefs_step_world [of "char self" "p_terms self" "[]" "p_counter self" w]
  by (auto simp: getcoefs_def terms_eq split: option.splits prod.splits)

lemma getmean_cached:
  "p_coefs self = Some c \<Longrightarrow> getmean S (self, w) = (mean_val S c (p_terms self), (self, w))"
  by (simp add: getmean_def getcoefs_cached terms_eq)

lemma getdiff_cached:
  "p_coefs self = Some c \<Longrightarrow>
   getdiff S (self, w) =
     (case mean_val S c (p_terms self) of
        Inl e \<Rightarrow> (Inl e, (self, w))
      | Inr m \<Rightarrow> (Inr (diff_val S m), (self, w)))"
  by (simp add: getdiff_def bindE_def okE_def getmean_cached split: sum.splits)

lemma getmean_via_getcoefs: "getmean S s = getmean S (snd (getcoefs s))"
proof -
  obtain self w where s: "s = (self, w)" by (cases s)
  obtain c self1 w1 where g: "getcoefs (self, w) = (c, (self1, w1))"
    by (metis prod.exhaust)
  from getcoefs_props(1) [OF g] have "getcoefs (self1, w1) = (c, (self1, w1))"
    by (rule getcoefs_cached)
  then show ?thesis using s g by (simp add: getmean_def)
qed

lemma setup_design_via_getcoefs: "setup_design S s = setup_design S (snd (getcoefs s))"
proof -
  have "getdiff S s = getdiff S (snd (getcoefs s))"
    using getmean_via_getcoefs [of S s] by (simp add: getdiff_def bindE_def)
  then show ?thesis
    by (simp add: setup_design_def bindE_def)
qed

lemma new_Dummies_world:
  "new_Dummies nms w = (ps, w') \<Longrightarrow>
     rng_pos w' = rng_pos w \<and> rng_draws w' = rng_draws w \<and> length ps = length nms"
  by (induction nms arbitrary: w ps w') (auto simp: new_Dummy_def split: prod.splits)

lemma setup_design_cached:
  assumes "p_coefs self = Some c"
  shows "setup_design S (self, w) =
     (case mean_val S c (p_terms self) of
        Inl e \<Rightarrow> (Inl e, (self, w))
      | Inr m \<Rightarrow>
         (let r = rng_draws w (rng_pos w) mod 2 ^ 30;
              w2 = w\<lparr>rng_pos := Suc (rng_pos w)\<rparr>
          in case getterms S [m] of
               Inl e \<Rightarrow> (Inl e, (self, w2))
             | Inr ts \<Rightarrow>
                (let newterms = map (\<lambda>i. Symbol (placeholder ''t'' (i + r))) [0..<length ts];
                     d1 = subs_all S (zip ts newterms) (diff_val S m);
                     params = getparams S (map E (diff_val S m));
                     pn = new_Dummies (map (\<lambda>i. placeholder ''p'' (i + r)) [0..<length params]) w2
                 in (Inr (),
                     (self\<lparr>p_f := Some \<lparr>f_args = fst pn @ newterms,
                                         f_body = subs_all S (zip params (fst pn)) d1\<rparr>,
                           p_dtypes := Some \<lparr>dt_param = map (sym_str S) params,
                                              dt_term = map (sym_str S) ts,
                                              dt_preterm = remdups (map (preterm_of S) ts)\<rparr>,
                           pp_terms := Some ts\<rparr>,
                      snd pn)))))"
  using assms
  by (auto simp: setup_design_def bindE_def okE_def getdiff_cached getmean_cached randint_def Let_def
      split: sum.splits prod.splits)


lemma mapE_dict_get_errors: "mapE (dict_get c) ts = Inl e \<Longrightarrow> e = KeyError"
  by (induction ts arbitrary: e) (auto simp: dict_get_def split: option.splits sum.splits)

lemma mapE_dict_get_ok:
  "list_all (\<lambda>t. map_of c t \<noteq> None) ts \<Longrightarrow>
     mapE (dict_get c) ts = Inr (map (\<lambda>t. the (map_of c t)) ts)"
  by (induction ts) (auto simp: dict_get_def)

lemma mean_val_errors: "mean_val S c ts = Inl e \<Longrightarrow> e = KeyError"
  by (auto simp: mean_val_def dest: mapE_dict_get_errors split: sum.splits)

lemma mean_val_ok:
  assumes "list_all (\<lambda>t. map_of c t \<noteq> None) ts" and "ts \<noteq> []"
  shows "\<exists>e. mean_val S c ts = Inr (E e)"
proof -
  from assms(2) obtain t ts' where "ts = t # ts'" by (cases ts) auto
  then show ?thesis
    using mapE_dict_get_ok [OF assms(1)] by (simp add: mean_val_def np_sum_def)
qed

lemma getterms_E: "getterms S [E e] = Inr (sort_key (s_key S) (filter is_term (remdups (atoms e))))"
  by (simp add: getterms_def)

lemma setdefault_map_of:
  "map_of (setdefault c k v) k' =
     (if map_of c k' \<noteq> None then map_of c k' else if k' = k then Some v else None)"
  by (auto simp: setdefault_def map_of_append map_add_def split: option.splits)

lemma coefs_step_eq:
  "coefs_step ch t (c, n, w) =
     (setdefault c t (Beta (ch @ str_nat n) (dummy_count w) t), Suc n,
      w\<lparr>dummy_count := Suc (dummy_count w)\<rparr>)"
  by (simp add: coefs_step_def new_Beta_def)

lemma fold_coefs_step_inv:
  "fold (coefs_step ch) ts (c, n, w) = (c', n', w') \<Longrightarrow>
   (\<forall>k v. map_of c k = Some v \<longrightarrow> is_Beta v) \<Longrightarrow>
     (\<forall>k v. map_of c' k = Some v \<longrightarrow> is_Beta v)
     \<and> (\<forall>k. map_of c k \<noteq> None \<longrightarrow> map_of c' k \<noteq> None)
     \<and> (\<forall>t \<in> set ts. map_of c' t \<noteq> None)"
proof (induction ts arbitrary: c n w)
  case Nil
  then show ?case by simp
next
  case (Cons t ts)
  let ?c1 = "setdefault c t (Beta (ch @ str_nat n) (dummy_count w) t)"
  let ?w1 = "w\<lparr>dummy_count := Suc (dummy_count w)\<rparr>"
  from Cons.prems(1) have f: "fold (coefs_step ch) ts (?c1, Suc n, ?w1) = (c', n', w')"
    by (simp add: coefs_step_eq)
  have inv1: "\<forall>k v. map_of ?c1 k = Some v \<longrightarrow> is_Beta v"
    using Cons.prems(2) by (auto simp: setdefault_map_of split: if_splits)
  from Cons.IH [OF f inv1]
  have a: "\<forall>k v. map_of c' k = Some v \<longrightarrow> is_Beta v"
    and b: "\<forall>k. map_of ?c1 k \<noteq> None \<longrightarrow> map_of c' k \<noteq> None"
    and d: "\<forall>t \<in> set ts. map_of c' t \<noteq> None"
    by blast+
  have e: "map_of ?c1 t \<noteq> None" by (simp add: setdefault_map_of)
  have g: "\<forall>k. map_of c k \<noteq> None \<longrightarrow> map_of ?c1 k \<noteq> None" by (simp add: setdefault_map_of)
  show ?case using a b d e g by auto
qed

lemma getcoefs_wf:
  assumes "coefs_wf self" and "getcoefs (self, w) = (c, (self1, w1))"
  shows "list_all (\<lambda>t. case map_of c t of None \<Rightarrow> False | Some b \<Rightarrow> is_Beta b) (p_terms self)"
proof (cases "p_coefs self")
  case None
  obtain c' n' w' where f: "fold (coefs_step (char self)) (p_terms self) ([], p_counter self, w) = (c', n', w')"
    by (metis prod.exhaust)
  with None assms(2) have "c = c'" by (simp add: getcoefs_def terms_eq)
  with fold_coefs_step_inv [OF f] show ?thesis
    by (auto simp: list_all_iff split: option.splits)
next
  case (Some c0)
  with assms show ?thesis by (simp add: coefs_wf_def getcoefs_def terms_eq)
qed

lemma wf_cover:
  "list_all (\<lambda>t. case map_of c t of None \<Rightarrow> False | Some b \<Rightarrow> is_Beta b) ts \<Longrightarrow>
     list_all (\<lambda>t. map_of c t \<noteq> None) ts"
  by (auto simp: list_all_iff split: option.splits)

lemma setup_design_ok:
  assumes "coefs_wf (fst s)" and "terms (fst s) \<noteq> []"
  shows "\<exists>self' w' dts f ts. setup_design S s = (Inr (), (self', w'))
           \<and> p_dtypes self' = Some dts \<and> p_f self' = Some f \<and> pp_terms self' = Some ts
           \<and> p_coefs self' \<noteq> None \<and> p_terms self' = p_terms (fst s)
           \<and> rng_pos w' = Suc (rng_pos (snd s))"
proof -
  obtain self w where s: "s = (self, w)" by (cases s)
  obtain c self1 w1 where g: "getcoefs (self, w) = (c, (self1, w1))" by (metis prod.exhaust)
  note p = getcoefs_props [OF g]
  have cov: "list_all (\<lambda>t. map_of c t \<noteq> None) (p_terms self1)"
    using getcoefs_wf [OF _ g] assms(1) s p(2) wf_cover by auto
  have ne: "p_terms self1 \<noteq> []" using assms(2) s p(2) by (simp add: terms_eq)
  from mean_val_ok [OF cov ne] obtain e where m: "mean_val S c (p_terms self1) = Inr (E e)" ..
  let ?r = "rng_draws w1 (rng_pos w1) mod 2 ^ 30"
  let ?w2 = "w1\<lparr>rng_pos := Suc (rng_pos w1)\<rparr>"
  let ?params = "getparams S (map E (diff_val S (E e)))"
  obtain ps w3 where nd: "new_Dummies (map (\<lambda>i. placeholder ''p'' (i + ?r)) [0..<length ?params]) ?w2 = (ps, w3)"
    by (metis prod.exhaust)
  have "setup_design S s = setup_design S (self1, w1)"
    using setup_design_via_getcoefs [of S s] s g by simp
  then show ?thesis
    using setup_design_cached [OF p(1), of S w1] m nd new_Dummies_world [OF nd] p s
    by (simp add: getterms_E Let_def)
qed

subsection \<open>What \<open>design\<close> does to the state\<close>

lemma getdiff_errors: "getdiff S s = (Inl e, s') \<Longrightarrow> e = KeyError"
  by (auto simp: getdiff_def bindE_def okE_def getmean_def dest: mean_val_errors
      split: prod.splits sum.splits)

lemma design_general_no_ValueError:
  "fst (design_general S N input param rf hc dts s) \<noteq> Inl (ValueError m)"
  by (auto simp: design_general_def bindE_def attr_def raiseE_def okE_def Let_def
      dest: getdiff_errors split: option.splits sum.splits prod.splits if_splits)

lemma design_general_state:
  assumes "p_coefs (fst s) \<noteq> None"
  shows "snd (design_general S N input param rf hc dts s) = s"
proof -
  obtain self w where s: "s = (self, w)" by (cases s)
  from assms s obtain c where c: "p_coefs self = Some c" by auto
  show ?thesis
    unfolding s
    by (auto simp: design_general_def bindE_def attr_def raiseE_def okE_def Let_def
        getdiff_cached [OF c] split: option.splits sum.splits prod.splits if_splits)
qed

lemma design_main_after_setup:
  assumes "setup_design S s = (Inr (), s')" and "p_dtypes (fst s') = Some dts"
  shows "design_main S N input param rf hc s =
     (if \<not> set (dt_preterm dts) \<subseteq> set (ra_names input)
      then (Inl (ValueError ''for term, expecting a recarray with dtype having the following names: ''), s')
      else if (case param of None \<Rightarrow> False | Some pr \<Rightarrow> \<not> set (dt_param dts) \<subseteq> set (pa_names pr))
      then (Inl (ValueError ''for param, expecting a recarray with dtype having the following names: ''), s')
      else if terms (fst s') = [Number 1]
      then (Inr (Early (if \<not> rf then RecResult [''intercept''] (np_ones (ra_rows input))
                        else FloatResult (np_ones (ra_rows input)))), s')
      else if dt_term dts = []
      then (Inl (ValueError ''none of the expressions in self.terms are Term instances; shape of resulting undefined''), s')
      else design_general S N input param rf hc dts s')"
  using assms
  by (simp add: design_main_def bindE_def attr_def raiseE_def okE_def Let_def)

lemma design_main_setup_failed:
  "setup_design S s = (Inl e, s') \<Longrightarrow> design_main S N input param rf hc s = (Inl e, s')"
  by (simp add: design_main_def bindE_def)

lemma setup_design_coefs: "p_coefs (fst (snd (setup_design S s))) \<noteq> None"
proof -
  obtain c self1 w1 where g: "getcoefs s = (c, (self1, w1))" by (metis prod.exhaust)
  obtain self w where s: "s = (self, w)" by (cases s)
  have c: "p_coefs self1 = Some c" using getcoefs_props(1) g s by blast
  have "setup_design S s = setup_design S (self1, w1)"
    using setup_design_via_getcoefs [of S s] g by simp
  then show ?thesis
    using c by (auto simp: setup_design_cached [OF c] Let_def split: sum.splits prod.splits)
qed

lemma setup_design_rng_mono: "rng_pos (snd s) \<le> rng_pos (snd (snd (setup_design S s)))"
proof -
  obtain self w where s: "s = (self, w)" by (cases s)
  obtain c self1 w1 where g: "getcoefs (self, w) = (c, (self1, w1))" by (metis prod.exhaust)
  note p = getcoefs_props [OF g]
  have e: "setup_design S s = setup_design S (self1, w1)"
    using setup_design_via_getcoefs [of S s] g s by simp
  have d: "rng_pos (snd (new_Dummies nms w0)) = rng_pos w0" for nms w0
    using new_Dummies_world [of nms w0] by (cases "new_Dummies nms w0") auto
  show ?thesis
    unfolding e using p(3) s
    by (auto simp: setup_design_cached [OF p(1)] Let_def d split: sum.splits)
qed

lemma design_main_state:
  "snd (design_main S N input param rf hc s) = snd (setup_design S s)"
proof -
  obtain r s' where Pair: "setup_design S s = (r, s')" by (metis prod.exhaust)
  show ?thesis
  proof (cases r)
    case (Inl e)
    with Pair show ?thesis by (simp add: design_main_setup_failed)
  next
    case (Inr u)
    have c: "p_coefs (fst s') \<noteq> None" using setup_design_coefs [of S s] Pair by simp
    show ?thesis
    proof (cases "p_dtypes (fst s')")
      case None
      with Pair Inr show ?thesis
        by (simp add: design_main_def bindE_def attr_def)
    next
      case (Some dts)
      from Pair Inr have "setup_design S s = (Inr (), s')" by simp
      from design_main_after_setup [OF this Some]
      show ?thesis using Pair design_general_state [OF c, of S N input param rf hc dts] by simp
    qed
  qed
qed

lemma contrast_loop_state:
  "fst (snd (contrast_loop S N input param D2 pinvD cs s)) = fst s
   \<and> rng_pos (snd s) \<le> rng_pos (snd (snd (contrast_loop S N input param D2 pinvD cs s)))"
proof (induction cs arbitrary: s)
  case Nil
  then show ?case by simp
next
  case (Cons kc cs)
  obtain key cf where kc: "kc = (key, cf)" by (cases kc)
  let ?cf = "(case cf of CFormula g \<Rightarrow> g | CExpr e \<Rightarrow> Formula_init [e] ''b'')"
  let ?m = "design_main S N input param True False (?cf, snd s)"
  have mono: "rng_pos (snd s) \<le> rng_pos (snd (snd ?m))"
    using setup_design_rng_mono [of "(?cf, snd s)" S] by (simp add: design_main_state)
  obtain r s' where m: "?m = (r, s')" by (metis prod.exhaust)
  from Cons.IH [of "(fst s, snd s')"] mono m
  show ?case
    unfolding kc
    by (auto simp: Let_def split: sum.splits prod.splits)
qed

subsection \<open>Every call of \<open>design\<close> runs the setup\<close>

lemma str_nat_5: "str_nat 5 = ''5''"
  by code_simp

lemma str_nat_9: "str_nat 9 = ''9''"
  by code_simp

lemma str_nat_0: "str_nat 0 = ''0''"
  by code_simp

lemma ex_getcoefs:
  "getcoefs (ex_formula, w) =
     ([(Term ''x'', Beta ''b0'' (dummy_count w) (Term ''x''))],
      (ex_formula\<lparr>p_coefs := Some [(Term ''x'', Beta ''b0'' (dummy_count w) (Term ''x''))], p_counter := 1\<rparr>,
       w\<lparr>dummy_count := Suc (dummy_count w)\<rparr>))"
  by (simp add: getcoefs_def ex_formula_def Formula_init_def terms_eq coefs_step_eq setdefault_def str_nat_0)

lemma ex_setup_cached:
  assumes "p_coefs self = Some [(Term ''x'', Beta ''b0'' k (Term ''x''))]" and "p_terms self = [Term ''x'']"
  shows "setup_design ex_sympy (self, w) =
     (Inr (),
      (self\<lparr>p_f := Some \<lparr>f_args = [Symbol (placeholder ''t'' (rng_draws w (rng_pos w) mod 2 ^ 30))],
                          f_body = [Symbol (placeholder ''t'' (rng_draws w (rng_pos w) mod 2 ^ 30))]\<rparr>,
            p_dtypes := Some \<lparr>dt_param = [], dt_term = [''x''], dt_preterm = [''x'']\<rparr>,
            pp_terms := Some [Term ''x'']\<rparr>,
       w\<lparr>rng_pos := Suc (rng_pos w)\<rparr>))"
proof -
  let ?b = "Beta ''b0'' k (Term ''x'')"
  have m: "mean_val ex_sympy [(Term ''x'', ?b)] [Term ''x''] = Inr (E (Apply ''Mul'' [?b, Term ''x'']))"
    by (simp add: mean_val_def dict_get_def np_sum_def ex_sympy_def ex_mul_def)
  have gp: "getparams ex_sympy [E (Apply ''Mul'' [?b, Term ''x''])] = [?b]"
    by (simp add: getparams_def)
  have dv: "diff_val ex_sympy (E (Apply ''Mul'' [?b, Term ''x''])) = [Term ''x'']"
    by (simp add: diff_val_def gp) (simp add: ex_sympy_def)
  have gt: "getterms ex_sympy [E (Apply ''Mul'' [?b, Term ''x''])] = Inr [Term ''x'']"
    by (simp add: getterms_def)
  have gp2: "getparams ex_sympy [E (Term ''x'')] = []"
    by (simp add: getparams_def)
  show ?thesis
    using assms
    by (simp add: setup_design_cached [OF assms(1)] m gt dv gp2 Let_def subs_all_def preterm_of_def)
       (simp add: ex_sympy_def)
qed


lemma design_snd_cases:
  "snd (design S N input param rf contrasts s) = snd (setup_design S s)
   \<or> (\<exists>D2 pinvD cs. snd (design S N input param rf contrasts s)
          = snd (contrast_loop S N input param D2 pinvD cs (snd (setup_design S s))))"
proof -
  let ?cs = "(case contrasts of None \<Rightarrow> [] | Some c \<Rightarrow> c)"
  obtain r s' where m: "design_main S N input param rf (?cs \<noteq> []) s = (r, s')"
    by (metis prod.exhaust)
  have s': "s' = snd (setup_design S s)"
    using design_main_state [of S N input param rf "?cs \<noteq> []" s] m by simp
  have d: "design S N input param rf contrasts s =
      (case r of
         Inl e \<Rightarrow> (Inl e, s')
       | Inr out \<Rightarrow>
          (case out of
             Early a \<Rightarrow> (Inr a, s')
           | Full D None \<Rightarrow> (Inr D, s')
           | Full D (Some (D2, pinvD)) \<Rightarrow>
               bindE (contrast_loop S N input param D2 pinvD ?cs)
                 (\<lambda>cmatrices. okE (WithContrasts (result_array D) cmatrices)) s'))"
    using m
    by (simp add: design_def Let_def bindE_def okE_def
        split: sum.splits main_out.splits option.splits prod.splits)
  have b: "snd (bindE (contrast_loop S N input param D2 pinvD ?cs) (\<lambda>cm. okE (f cm)) s')
      = snd (contrast_loop S N input param D2 pinvD ?cs s')" for D2 pinvD and f :: "_ \<Rightarrow> result"
    by (simp add: bindE_def okE_def split: sum.splits prod.splits)
  show ?thesis
  proof (cases r)
    case (Inl e)
    then show ?thesis using d s' by simp
  next
    case (Inr out)
    show ?thesis
    proof (cases out)
      case (Early a)
      then show ?thesis using d s' Inr by simp
    next
      case (Full D x)
      show ?thesis
      proof (cases x)
        case None
        then show ?thesis using d s' Inr Full by simp
      next
        case (Some q)
        obtain D2 pinvD where q: "q = (D2, pinvD)" by (cases q)
        have "snd (design S N input param rf contrasts s)
            = snd (contrast_loop S N input param D2 pinvD ?cs (snd (setup_design S s)))"
          using d s' Inr Full Some q b [of D2 pinvD "WithContrasts (result_array D)"] by simp
        then show ?thesis by blast
      qed
    qed
  qed
qed

lemma design_state:
  "fst (snd (design S N input param rf contrasts s)) = fst (snd (setup_design S s))
   \<and> rng_pos (snd (snd (setup_design S s))) \<le> rng_pos (snd (snd (design S N input param rf contrasts s)))"
  using design_snd_cases [of S N input param rf contrasts s] contrast_loop_state
  by (metis order_refl)

lemma design_state_no_contrasts:
  "contrasts = None \<or> contrasts = Some [] \<Longrightarrow>
     snd (design S N input param rf contrasts s) = snd (setup_design S s)"
  using design_main_state [of S N input param rf False s]
  by (auto simp: design_def Let_def bindE_def okE_def
      split: sum.splits prod.splits main_out.splits option.splits)

lemma setup_design_cached_coefs:
  assumes "p_coefs (fst s) = Some c"
  shows "p_coefs (fst (snd (setup_design S s))) = Some c"
proof -
  obtain self w where s: "s = (self, w)" by (cases s)
  with assms have c: "p_coefs self = Some c" by simp
  show ?thesis
    unfolding s
    by (auto simp: setup_design_cached [OF c] Let_def c split: sum.splits prod.splits)
qed

lemma setup_design_draws:
  assumes "coefs_wf (fst s)"
  shows "rng_pos (snd (snd (setup_design S s))) = Suc (rng_pos (snd s))"
proof -
  obtain self w where s: "s = (self, w)" by (cases s)
  obtain c self1 w1 where g: "getcoefs (self, w) = (c, (self1, w1))" by (metis prod.exhaust)
  note p = getcoefs_props [OF g]
  have cov: "list_all (\<lambda>t. map_of c t \<noteq> None) (p_terms self1)"
    using getcoefs_wf [OF _ g] assms s p(2) wf_cover by auto
  have m: "mean_val S c (p_terms self1) = Inr (np_sum S (map2 (s_mul S) (map (\<lambda>t. the (map_of c t)) (p_terms self1)) (p_terms self1)))"
    by (simp add: mean_val_def mapE_dict_get_ok [OF cov])
  have e: "setup_design S s = setup_design S (self1, w1)"
    using setup_design_via_getcoefs [of S s] g s by simp
  have d: "rng_pos (snd (new_Dummies nms w0)) = rng_pos w0" for nms w0
    using new_Dummies_world [of nms w0] by (cases "new_Dummies nms w0") auto
  show ?thesis
    unfolding e using p(3) s
    by (auto simp: setup_design_cached [OF p(1)] m Let_def d split: sum.splits)
qed

lemma setup_design_placeholders:
  assumes "fst (setup_design S s) = Inr ()"
  shows "\<exists>f ts ps. p_f (fst (snd (setup_design S s))) = Some f
           \<and> pp_terms (fst (snd (setup_design S s))) = Some ts
           \<and> f_args f = ps @ map (\<lambda>i. Symbol (placeholder ''t''
                 (i + rng_draws (snd s) (rng_pos (snd s)) mod 2 ^ 30))) [0..<length ts]"
proof -
  obtain self w where s: "s = (self, w)" by (cases s)
  obtain c self1 w1 where g: "getcoefs (self, w) = (c, (self1, w1))" by (metis prod.exhaust)
  note p = getcoefs_props [OF g]
  have e: "setup_design S s = setup_design S (self1, w1)"
    using setup_design_via_getcoefs [of S s] g s by simp
  show ?thesis
    using assms unfolding e using p(3,4) s
    by (auto simp: setup_design_cached [OF p(1)] Let_def split: sum.splits)
qed

text \<open>
  Claim C1, amended. Every call of \<open>design\<close> runs \<open>_setup_design\<close>: the object it
  leaves is the object its own setup run left; on a well-formed object the setup
  draws exactly one random number, so the generator advances at every call; when the
  setup succeeds, the stored evaluator's term placeholders are numbered from the
  offset drawn in this call. Only the coefficient map is kept: once cached, no call
  of \<open>design\<close> changes it.
\<close>

theorem design_runs_setup_every_call:
  "fst (snd (design S N input param rf contrasts s)) = fst (snd (setup_design S s))
   \<and> snd (design S N input param rf None s) = snd (setup_design S s)
   \<and> (coefs_wf (fst s) \<longrightarrow>
        rng_pos (snd (snd (setup_design S s))) = Suc (rng_pos (snd s))
        \<and> Suc (rng_pos (snd s)) \<le> rng_pos (snd (snd (design S N input param rf contrasts s))))
   \<and> (fst (setup_design S s) = Inr () \<longrightarrow>
        (\<exists>f ts ps. p_f (fst (snd (setup_design S s))) = Some f
           \<and> pp_terms (fst (snd (setup_design S s))) = Some ts
           \<and> f_args f = ps @ map (\<lambda>i. Symbol (placeholder ''t''
                 (i + rng_draws (snd s) (rng_pos (snd s)) mod 2 ^ 30))) [0..<length ts]))
   \<and> (p_coefs (fst s) = Some c \<longrightarrow>
        p_coefs (fst (snd (design S N input param rf contrasts s))) = Some c)"
  using design_state [of S N input param rf contrasts s]
        design_state_no_contrasts [of None S N input param rf s]
        setup_design_draws [of s S] setup_design_placeholders [of S s]
        setup_design_cached_coefs [of s c S]
  by auto

lemma ex_formula_fields:
  "p_terms ex_formula = [Term ''x'']" "p_coefs ex_formula = None" "p_counter ex_formula = 0"
  "char ex_formula = ''b''"
  by (simp_all add: ex_formula_def Formula_init_def)

lemma ex_world_fields:
  "rng_pos ex_world = 0" "dummy_count ex_world = 0" "rng_draws ex_world = (\<lambda>i. 5 + 4 * i)"
  by (simp_all add: ex_world_def)

lemma ex_first: "ex_after_first =
  (ex_formula\<lparr>p_coefs := Some [(Term ''x'', Beta ''b0'' 0 (Term ''x''))], p_counter := 1,
     p_f := Some \<lparr>f_args = [Symbol ''__t5__''], f_body = [Symbol ''__t5__'']\<rparr>,
     p_dtypes := Some \<lparr>dt_param = [], dt_term = [''x''], dt_preterm = [''x'']\<rparr>,
     pp_terms := Some [Term ''x'']\<rparr>,
   ex_world\<lparr>dummy_count := 1, rng_pos := 1\<rparr>)"
proof -
  have "ex_after_first = snd (setup_design ex_sympy (snd (getcoefs (ex_formula, ex_world))))"
    using setup_design_via_getcoefs [of ex_sympy "(ex_formula, ex_world)"]
    by (simp add: ex_after_first_def design_state_no_contrasts)
  then show ?thesis
    by (simp add: ex_getcoefs ex_setup_cached [where k = 0] ex_formula_fields ex_world_fields
        placeholder_def str_nat_5)
qed

lemma ex_second: "ex_after_second =
  (ex_formula\<lparr>p_coefs := Some [(Term ''x'', Beta ''b0'' 0 (Term ''x''))], p_counter := 1,
     p_f := Some \<lparr>f_args = [Symbol ''__t9__''], f_body = [Symbol ''__t9__'']\<rparr>,
     p_dtypes := Some \<lparr>dt_param = [], dt_term = [''x''], dt_preterm = [''x'']\<rparr>,
     pp_terms := Some [Term ''x'']\<rparr>,
   ex_world\<lparr>dummy_count := 1, rng_pos := 2\<rparr>)"
  by (simp add: ex_after_second_def design_state_no_contrasts ex_first
      ex_setup_cached [where k = 0] ex_formula_fields ex_world_fields placeholder_def str_nat_9)

text \<open>
  Claim C1 as stated fails: two calls of \<open>design\<close> on one Formula draw two random
  offsets (5, then 9) and store two different evaluators; the second call does not
  reuse the evaluator of the first.
\<close>

theorem design_setup_rerun_counterexample:
  "p_f (fst ex_after_first) = Some \<lparr>f_args = [Symbol ''__t5__''], f_body = [Symbol ''__t5__'']\<rparr>
   \<and> p_f (fst ex_after_second) = Some \<lparr>f_args = [Symbol ''__t9__''], f_body = [Symbol ''__t9__'']\<rparr>
   \<and> p_f (fst ex_after_second) \<noteq> p_f (fst ex_after_first)
   \<and> rng_pos (snd ex_after_first) = 1
   \<and> rng_pos (snd ex_after_second) = 2"
  by (simp add: ex_first ex_second)

subsection \<open>A second call on the example\<close>

text \<open>
  The second call of \<open>design\<close> on the example: the object is well-formed with a
  cached coefficient map, the setup runs again and draws the second number, and the
  coefficient map is the one the first call cached.
\<close>

theorem design_runs_setup_every_call_witness:
  "coefs_wf (fst ex_after_first)
   \<and> p_coefs (fst ex_after_first) = Some [(Term ''x'', Beta ''b0'' 0 (Term ''x''))]
   \<and> fst (setup_design ex_sympy ex_after_first) = Inr ()
   \<and> fst ex_after_second = fst (snd (setup_design ex_sympy ex_after_first))
   \<and> rng_pos (snd ex_after_first) = 1
   \<and> rng_pos (snd (snd (setup_design ex_sympy ex_after_first))) = 2
   \<and> p_coefs (fst ex_after_second) = Some [(Term ''x'', Beta ''b0'' 0 (Term ''x''))]"
proof -
  have wf: "coefs_wf (fst ex_after_first)"
    by (simp add: ex_first coefs_wf_def terms_eq ex_formula_fields)
  have c: "p_coefs (fst ex_after_first) = Some [(Term ''x'', Beta ''b0'' 0 (Term ''x''))]"
    by (simp add: ex_first)
  have ok: "fst (setup_design ex_sympy ex_after_first) = Inr ()"
    by (simp add: ex_first ex_setup_cached [where k = 0] ex_formula_fields)
  have r: "rng_pos (snd ex_after_first) = 1"
    by (simp add: ex_first)
  note t = design_runs_setup_every_call
            [of ex_sympy ex_numlib ex_obs None True None ex_after_first
                "[(Term ''x'', Beta ''b0'' 0 (Term ''x''))]"]
  from t have a: "fst ex_after_second = fst (snd (setup_design ex_sympy ex_after_first))"
    unfolding ex_after_second_def by blast
  from t wf r have b: "rng_pos (snd (snd (setup_design ex_sympy ex_after_first))) = 2"
    by simp
  from t c have d: "p_coefs (fst ex_after_second) = Some [(Term ''x'', Beta ''b0'' 0 (Term ''x''))]"
    unfolding ex_after_second_def by blast
  show ?thesis using wf c ok a r b d by simp
qed

lemma single_getcoefs:
  "getcoefs (Formula_init [Term nm] ''b'', w) =
     ([(Term nm, Beta ''b0'' (dummy_count w) (Term nm))],
      ((Formula_init [Term nm] ''b'')
         \<lparr>p_coefs := Some [(Term nm, Beta ''b0'' (dummy_count w) (Term nm))], p_counter := 1\<rparr>,
       w\<lparr>dummy_count := Suc (dummy_count w)\<rparr>))"
  by (simp add: getcoefs_def Formula_init_def terms_eq coefs_step_eq setdefault_def str_nat_0)

lemma single_setup_cached:
  assumes "p_coefs self = Some [(Term nm, Beta ''b0'' k (Term nm))]" and "p_terms self = [Term nm]"
  shows "setup_design ex_sympy (self, w) =
     (Inr (),
      (self\<lparr>p_f := Some \<lparr>f_args = [Symbol (placeholder ''t'' (rng_draws w (rng_pos w) mod 2 ^ 30))],
                          f_body = [Symbol (placeholder ''t'' (rng_draws w (rng_pos w) mod 2 ^ 30))]\<rparr>,
            p_dtypes := Some \<lparr>dt_param = [], dt_term = [nm], dt_preterm = [nm]\<rparr>,
            pp_terms := Some [Term nm]\<rparr>,
       w\<lparr>rng_pos := Suc (rng_pos w)\<rparr>))"
proof -
  let ?b = "Beta ''b0'' k (Term nm)"
  have m: "mean_val ex_sympy [(Term nm, ?b)] [Term nm] = Inr (E (Apply ''Mul'' [?b, Term nm]))"
    by (simp add: mean_val_def dict_get_def np_sum_def ex_sympy_def ex_mul_def)
  have gp: "getparams ex_sympy [E (Apply ''Mul'' [?b, Term nm])] = [?b]"
    by (simp add: getparams_def)
  have dv: "diff_val ex_sympy (E (Apply ''Mul'' [?b, Term nm])) = [Term nm]"
    by (simp add: diff_val_def gp) (simp add: ex_sympy_def)
  have gt: "getterms ex_sympy [E (Apply ''Mul'' [?b, Term nm])] = Inr [Term nm]"
    by (simp add: getterms_def)
  have gp2: "getparams ex_sympy [E (Term nm)] = []"
    by (simp add: getparams_def)
  show ?thesis
    using assms
    by (simp add: setup_design_cached [OF assms(1)] m gt dv gp2 Let_def subs_all_def preterm_of_def)
       (simp add: ex_sympy_def)
qed

subsection \<open>The pure intercept\<close>

lemma ex_unit_laws:
  "s_mul ex_sympy e (Number 1) = e" "is_symbol b \<Longrightarrow> s_diff ex_sympy b b = Number 1"
  by (cases b; simp add: ex_sympy_def ex_mul_def)+

lemma is_Beta_cases: "is_Beta b \<Longrightarrow> \<exists>nm i t. b = Beta nm i t"
  by (cases b) auto

lemma setup_design_intercept:
  assumes mul1: "\<And>e. s_mul S e (Number 1) = e"
    and diff1: "\<And>b. is_symbol b \<Longrightarrow> s_diff S b b = Number 1"
    and wf: "coefs_wf (fst s)" and t: "terms (fst s) = [Number 1]"
  shows "\<exists>s'. setup_design S s = (Inr (), s')
           \<and> p_dtypes (fst s') = Some \<lparr>dt_param = [], dt_term = [], dt_preterm = []\<rparr>
           \<and> terms (fst s') = [Number 1]"
proof -
  obtain self w where s: "s = (self, w)" by (cases s)
  obtain c self1 w1 where g: "getcoefs (self, w) = (c, (self1, w1))" by (metis prod.exhaust)
  note p = getcoefs_props [OF g]
  have pt: "p_terms self1 = [Number 1]" using p(2) t s by (simp add: terms_eq)
  have "list_all (\<lambda>t. case map_of c t of None \<Rightarrow> False | Some b \<Rightarrow> is_Beta b) (p_terms self)"
    using getcoefs_wf [OF _ g] wf s by simp
  then obtain b where b: "map_of c (Number 1) = Some b" "is_Beta b"
    using t s by (auto simp: terms_eq split: option.splits)
  from is_Beta_cases [OF b(2)] obtain nm i t' where bb: "b = Beta nm i t'" by blast
  have m: "mean_val S c [Number 1] = Inr (E b)"
    using b(1) by (simp add: mean_val_def dict_get_def np_sum_def mul1)
  have gt: "getterms S [E b] = Inr []"
    by (simp add: getterms_def bb)
  have gp: "getparams S [E b] = [b]"
    by (simp add: getparams_def bb)
  have dv: "diff_val S (E b) = [Number 1]"
    using diff1 [of b] by (simp add: diff_val_def gp) (simp add: bb)
  have gp2: "getparams S [E (Number 1)] = []"
    by (simp add: getparams_def)
  have e: "setup_design S s = setup_design S (self1, w1)"
    using setup_design_via_getcoefs [of S s] g s by simp
  show ?thesis
    unfolding e
    by (simp add: setup_design_cached [OF p(1)] m gt dv gp2 Let_def terms_eq pt)
qed

text \<open>
  Claim C4. For a Formula whose only term is the constant 1, \<open>design(obs)\<close> returns a
  column of ones as long as \<open>obs\<close> has rows, whatever the fields of \<open>obs\<close>, the
  parameter record, the contrasts: a bare float vector when \<open>return_float\<close> is true, a
  structured array with the single field \<open>intercept\<close> otherwise. The engine is taken to
  satisfy \<open>e * 1 = e\<close> and \<open>d b / d b = 1\<close> for a symbol \<open>b\<close>.
\<close>

theorem design_pure_intercept:
  assumes "\<And>e. s_mul S e (Number 1) = e"
    and "\<And>b. is_symbol b \<Longrightarrow> s_diff S b b = Number 1"
    and "coefs_wf (fst s)" and "terms (fst s) = [Number 1]"
  shows "fst (design S N input param return_float contrasts s) =
           Inr (if return_float
                then FloatResult (Arr [ra_rows input] (replicate (ra_rows input) 1))
                else RecResult [''intercept''] (Arr [ra_rows input] (replicate (ra_rows input) 1)))"
proof -
  from setup_design_intercept [OF assms]
  obtain s' where s': "setup_design S s = (Inr (), s')"
    "p_dtypes (fst s') = Some \<lparr>dt_param = [], dt_term = [], dt_preterm = []\<rparr>"
    "terms (fst s') = [Number 1]"
    by blast
  have "design_main S N input param return_float hc s =
      (Inr (Early (if \<not> return_float then RecResult [''intercept''] (np_ones (ra_rows input))
                   else FloatResult (np_ones (ra_rows input)))), s')" for hc
    using design_main_after_setup [OF s'(1,2)] s'(3)
    by (simp split: option.splits)
  then show ?thesis
    by (simp add: design_def Let_def bindE_def okE_def np_ones_def)
qed

text \<open>
  The intercept Formula on the two example observations.
\<close>

theorem design_pure_intercept_witness:
  "coefs_wf (fst (Formula_init [Number 1] ''b'', ex_world))
   \<and> terms (fst (Formula_init [Number 1] ''b'', ex_world)) = [Number 1]
   \<and> ra_rows ex_obs = 2
   \<and> fst (design ex_sympy ex_numlib ex_obs None False None (Formula_init [Number 1] ''b'', ex_world))
       = Inr (RecResult [''intercept''] (Arr [2] [1, 1]))
   \<and> fst (design ex_sympy ex_numlib ex_obs None True None (Formula_init [Number 1] ''b'', ex_world))
       = Inr (FloatResult (Arr [2] [1, 1]))"
proof -
  have wf: "coefs_wf (fst (Formula_init [Number 1] ''b'', ex_world))"
    by (simp add: coefs_wf_def Formula_init_def)
  have t: "terms (fst (Formula_init [Number 1] ''b'', ex_world)) = [Number 1]"
    by (simp add: terms_eq Formula_init_def)
  have r: "ra_rows ex_obs = 2" by (simp add: ex_obs_def)
  have two: "replicate 2 (1 :: real) = [1, 1]" by (simp add: numeral_2_eq_2)
  show ?thesis
    using design_pure_intercept [OF ex_unit_laws wf t, of ex_numlib ex_obs None False None]
          design_pure_intercept [OF ex_unit_laws wf t, of ex_numlib ex_obs None True None]
          wf t r two
    by simp
qed

subsection \<open>The input validation of \<open>design\<close>\<close>

lemma design_of_main_error:
  "design_main S N input param rf ((case contrasts of None \<Rightarrow> [] | Some c \<Rightarrow> c) \<noteq> []) s = (Inl e, s')
     \<Longrightarrow> design S N input param rf contrasts s = (Inl e, s')"
  by (simp add: design_def bindE_def Let_def)

lemma design_no_contrasts_error:
  "contrasts = None \<or> contrasts = Some [] \<Longrightarrow>
   fst (design S N input param rf contrasts s) = Inl e \<Longrightarrow>
     fst (design_main S N input param rf False s) = Inl e"
  by (auto simp: design_def bindE_def okE_def Let_def
      split: sum.splits prod.splits main_out.splits option.splits)

text \<open>
  Claim C8, amended. For a well-formed Formula with at least one term, with the
  schemas its setup derives: in each of the three cases (a field of the \<open>preterm\<close>
  schema missing from the observations; a parameter record supplied that lacks a field
  of the \<open>param\<close> schema; terms other than the pure intercept and an empty \<open>term\<close>
  schema) \<open>design\<close> raises a \<open>ValueError\<close>, and the outcome is the same for every
  numeric library, \<open>return_float\<close> and \<open>contrasts\<close>: nothing is evaluated before the
  error. When no contrasts are supplied (\<open>None\<close> or an empty dict), these are the only
  cases in which a \<open>ValueError\<close> is raised (the library's routines taken as total).
\<close>

theorem design_ValueError_cases:
  assumes "coefs_wf (fst s)" and "terms (fst s) \<noteq> []"
  shows "\<exists>dts. schemas_of S s = Some dts
     \<and> (\<not> set (dt_preterm dts) \<subseteq> set (ra_names input)
          \<or> (\<exists>pr. param = Some pr \<and> \<not> set (dt_param dts) \<subseteq> set (pa_names pr))
          \<or> (terms (fst s) \<noteq> [Number 1] \<and> dt_term dts = [])
        \<longrightarrow> (\<exists>m. fst (design S N input param rf contrasts s) = Inl (ValueError m))
            \<and> design S N input param rf contrasts s = design S N' input param rf' contrasts' s)
     \<and> ((\<exists>m. fst (design S N input param rf None s) = Inl (ValueError m))
          \<longleftrightarrow> \<not> set (dt_preterm dts) \<subseteq> set (ra_names input)
              \<or> (\<exists>pr. param = Some pr \<and> \<not> set (dt_param dts) \<subseteq> set (pa_names pr))
              \<or> (terms (fst s) \<noteq> [Number 1] \<and> dt_term dts = []))
     \<and> ((\<exists>m. fst (design S N input param rf (Some []) s) = Inl (ValueError m))
          \<longleftrightarrow> \<not> set (dt_preterm dts) \<subseteq> set (ra_names input)
              \<or> (\<exists>pr. param = Some pr \<and> \<not> set (dt_param dts) \<subseteq> set (pa_names pr))
              \<or> (terms (fst s) \<noteq> [Number 1] \<and> dt_term dts = []))"
proof -
  from setup_design_ok [OF assms, of S]
  obtain self' w' dts where su: "setup_design S s = (Inr (), (self', w'))"
    and dt: "p_dtypes self' = Some dts" and pt: "p_terms self' = p_terms (fst s)"
    by blast
  let ?K = "\<not> set (dt_preterm dts) \<subseteq> set (ra_names input)
              \<or> (\<exists>pr. param = Some pr \<and> \<not> set (dt_param dts) \<subseteq> set (pa_names pr))
              \<or> (terms (fst s) \<noteq> [Number 1] \<and> dt_term dts = [])"
  have sch: "schemas_of S s = Some dts"
    using su dt by (simp add: schemas_of_def)
  have dt': "p_dtypes (fst (self', w')) = Some dts" using dt by simp
  note dm = design_main_after_setup [OF su dt', of _ input param]
  have tt: "terms (fst (self', w')) = terms (fst s)" using pt by (simp add: terms_eq)
  have pc: "(case param of None \<Rightarrow> False | Some pr \<Rightarrow> \<not> set (dt_param dts) \<subseteq> set (pa_names pr))
      \<longleftrightarrow> (\<exists>pr. param = Some pr \<and> \<not> set (dt_param dts) \<subseteq> set (pa_names pr))"
    by (cases param) auto
  have fail: "\<exists>m. \<forall>N0 rf0 hc. design_main S N0 input param rf0 hc s = (Inl (ValueError m), (self', w'))"
    if k: "?K"
  proof (cases "set (dt_preterm dts) \<subseteq> set (ra_names input)")
    case False
    then show ?thesis by (simp add: dm)
  next
    case T1: True
    show ?thesis
    proof (cases "case param of None \<Rightarrow> False
                  | Some pr \<Rightarrow> \<not> set (dt_param dts) \<subseteq> set (pa_names pr)")
      case True
      with T1 show ?thesis by (simp add: dm)
    next
      case F2: False
      from k T1 F2 pc tt have c: "terms self' \<noteq> [Number 1]" "dt_term dts = []"
        by auto
      with T1 F2 show ?thesis by (simp add: dm)
    qed
  qed
  have part1: "(\<exists>m. fst (design S Na input param rfa csa s) = Inl (ValueError m))
            \<and> design S Na input param rfa csa s = design S Nb input param rfb csb s"
    if "?K" for Na Nb rfa rfb csa csb
  proof -
    from fail [OF that] obtain m where
      m: "\<And>N0 rf0 hc. design_main S N0 input param rf0 hc s = (Inl (ValueError m), (self', w'))"
      by blast
    have "design S Nc input param rfc csc s = (Inl (ValueError m), (self', w'))" for Nc rfc csc
      by (rule design_of_main_error) (rule m)
    then show ?thesis by simp
  qed
  have part2: "?K" if "fst (design S N input param rf cs s) = Inl (ValueError m)"
    and "cs = None \<or> cs = Some []" for cs m
  proof (rule ccontr)
    assume nk: "\<not> ?K"
    from design_no_contrasts_error [OF that(2) that(1)]
    have e: "fst (design_main S N input param rf False s) = Inl (ValueError m)" .
    from nk pc tt have n1: "set (dt_preterm dts) \<subseteq> set (ra_names input)"
      and n2: "\<not> (case param of None \<Rightarrow> False
                  | Some pr \<Rightarrow> \<not> set (dt_param dts) \<subseteq> set (pa_names pr))"
      and n3: "terms self' = [Number 1] \<or> dt_term dts \<noteq> []"
      by auto
    show False
    proof (cases "terms self' = [Number 1]")
      case True
      then show ?thesis using e n1 n2 by (simp add: dm)
    next
      case False
      then have "design_main S N input param rf False s
          = design_general S N input param rf False dts (self', w')"
        using n1 n2 n3 by (simp add: dm)
      then show ?thesis
        using e design_general_no_ValueError [of S N input param rf False dts "(self', w')" m]
        by simp
    qed
  qed
  have i1: "(\<exists>m. fst (design S N input param rf None s) = Inl (ValueError m)) \<longleftrightarrow> ?K"
    using part1 [where Na = N and rfa = rf and csa = None] part2 [of None] by blast
  have i2: "(\<exists>m. fst (design S N input param rf (Some []) s) = Inl (ValueError m)) \<longleftrightarrow> ?K"
    using part1 [where Na = N and rfa = rf and csa = "Some []"] part2 [of "Some []"] by blast
  have i0: "?K \<longrightarrow> (\<exists>m. fst (design S N input param rf contrasts s) = Inl (ValueError m))
            \<and> design S N input param rf contrasts s = design S N' input param rf' contrasts' s"
    using part1 [where Na = N and rfa = rf and csa = contrasts and Nb = N' and rfb = rf'
        and csb = contrasts'] by blast
  show ?thesis
    using sch i0 i1 i2 by (intro exI [of _ dts] conjI)
qed

subsection \<open>The validation on the example, and a contrast that fails\<close>

lemma single_setup_full:
  "\<exists>s' f. setup_design ex_sympy (Formula_init [Term nm] ''b'', w) = (Inr (), s')
     \<and> p_dtypes (fst s') = Some \<lparr>dt_param = [], dt_term = [nm], dt_preterm = [nm]\<rparr>
     \<and> terms (fst s') = [Term nm]
     \<and> pp_terms (fst s') = Some [Term nm]
     \<and> p_f (fst s') = Some f \<and> length (f_args f) = 1"
proof -
  have "setup_design ex_sympy (Formula_init [Term nm] ''b'', w)
      = setup_design ex_sympy (snd (getcoefs (Formula_init [Term nm] ''b'', w)))"
    by (rule setup_design_via_getcoefs)
  also have "\<dots> = setup_design ex_sympy
      ((Formula_init [Term nm] ''b'')
         \<lparr>p_coefs := Some [(Term nm, Beta ''b0'' (dummy_count w) (Term nm))], p_counter := 1\<rparr>,
       w\<lparr>dummy_count := Suc (dummy_count w)\<rparr>)"
    by (simp only: single_getcoefs snd_conv)
  finally show ?thesis
    by (simp add: single_setup_cached [where k = "dummy_count w" and nm = nm] Formula_init_def terms_eq)
qed

lemma ex_schemas:
  "schemas_of ex_sympy (ex_formula, ex_world)
     = Some \<lparr>dt_param = [], dt_term = [''x''], dt_preterm = [''x'']\<rparr>"
  using single_setup_full [of "''x''" ex_world]
  by (auto simp: schemas_of_def ex_formula_def)

lemma design_general_contrasts:
  assumes "pp_terms (fst s) = Some ts" and "p_f (fst s) = Some f"
    and "length (f_args f) = length ts"
  shows "\<exists>D D2 P. design_general S N input None rf True dts s
           = (Inr (Full (FloatResult D) (Some (D2, P))), s)"
  using assms
  by (simp add: design_general_def bindE_def attr_def okE_def Let_def)

lemma design_contrast_path:
  assumes "design_main S N input param rf True s = (Inr (Full D (Some (D2, P))), s1)"
    and "cs \<noteq> []"
  shows "fst (design S N input param rf (Some cs) s) =
     (case fst (contrast_loop S N input param D2 P cs s1) of
        Inl e \<Rightarrow> Inl e
      | Inr cm \<Rightarrow> Inr (WithContrasts (result_array D) cm))"
  using assms
  by (simp add: design_def Let_def bindE_def okE_def split: prod.splits sum.splits)

text \<open>
  The example Formula on observations without the field \<open>x\<close> (case 1) and on the
  example observations (no case holds, no \<open>ValueError\<close>).
\<close>

theorem design_ValueError_cases_witness:
  "coefs_wf (fst (ex_formula, ex_world))
   \<and> terms (fst (ex_formula, ex_world)) \<noteq> []
   \<and> schemas_of ex_sympy (ex_formula, ex_world)
       = Some \<lparr>dt_param = [], dt_term = [''x''], dt_preterm = [''x'']\<rparr>
   \<and> \<not> set [''x''] \<subseteq> set (ra_names (ex_obs\<lparr>ra_names := [''z'']\<rparr>))
   \<and> (\<exists>m. fst (design ex_sympy ex_numlib (ex_obs\<lparr>ra_names := [''z'']\<rparr>) None False None
              (ex_formula, ex_world)) = Inl (ValueError m))
   \<and> set [''x''] \<subseteq> set (ra_names ex_obs)
   \<and> terms (fst (ex_formula, ex_world)) \<noteq> [Number 1]
   \<and> \<not> (\<exists>m. fst (design ex_sympy ex_numlib ex_obs None False None (ex_formula, ex_world))
              = Inl (ValueError m))"
proof -
  have wf: "coefs_wf (fst (ex_formula, ex_world))"
    by (simp add: coefs_wf_def ex_formula_fields)
  have ne: "terms (fst (ex_formula, ex_world)) \<noteq> []"
    by (simp add: terms_eq ex_formula_fields)
  have n1: "terms (fst (ex_formula, ex_world)) \<noteq> [Number 1]"
    by (simp add: terms_eq ex_formula_fields)
  have z: "\<not> set [''x''] \<subseteq> set (ra_names (ex_obs\<lparr>ra_names := [''z'']\<rparr>))" by simp
  have x: "set [''x''] \<subseteq> set (ra_names ex_obs)" by (simp add: ex_obs_def)
  from design_ValueError_cases [OF wf ne, of ex_sympy "ex_obs\<lparr>ra_names := [''z'']\<rparr>" None
      ex_numlib False None ex_numlib False None]
  have a: "\<exists>m. fst (design ex_sympy ex_numlib (ex_obs\<lparr>ra_names := [''z'']\<rparr>) None False None
              (ex_formula, ex_world)) = Inl (ValueError m)"
    using z by (simp add: ex_schemas)
  from design_ValueError_cases [OF wf ne, of ex_sympy ex_obs None
      ex_numlib False None ex_numlib False None]
  have b: "\<not> (\<exists>m. fst (design ex_sympy ex_numlib ex_obs None False None (ex_formula, ex_world))
              = Inl (ValueError m))"
    using x n1 by (simp add: ex_schemas)
  show ?thesis using wf ne n1 z x a b ex_schemas by simp
qed

text \<open>
  Claim C8 as stated fails: with a contrast, \<open>design\<close> raises a \<open>ValueError\<close> although
  none of the three cases holds for the Formula. The observations have the field \<open>x\<close>
  that the Formula needs, no parameter record is supplied and the \<open>term\<close> schema is
  not empty; the error comes from the design of the contrast Formula \<open>y\<close>, after the
  design matrix of the Formula itself has been computed.
\<close>

theorem design_contrast_ValueError_counterexample:
  "schemas_of ex_sympy (ex_formula, ex_world)
       = Some \<lparr>dt_param = [], dt_term = [''x''], dt_preterm = [''x'']\<rparr>
   \<and> set [''x''] \<subseteq> set (ra_names ex_obs)
   \<and> terms ex_formula \<noteq> [Number 1]
   \<and> fst (design ex_sympy ex_numlib ex_obs None False
             (Some [(''c'', CFormula (Formula_init [Term ''y''] ''b''))]) (ex_formula, ex_world))
       = Inl (ValueError ''for term, expecting a recarray with dtype having the following names: '')"
proof -
  let ?cs = "[(''c'', CFormula (Formula_init [Term ''y''] ''b''))]"
  have x: "set [''x''] \<subseteq> set (ra_names ex_obs)" by (simp add: ex_obs_def)
  have n1: "terms ex_formula \<noteq> [Number 1]" by (simp add: terms_eq ex_formula_fields)
  from single_setup_full [of "''x''" ex_world]
  obtain s1 f where s1: "setup_design ex_sympy (ex_formula, ex_world) = (Inr (), s1)"
    and d1: "p_dtypes (fst s1) = Some \<lparr>dt_param = [], dt_term = [''x''], dt_preterm = [''x'']\<rparr>"
    and t1: "terms (fst s1) = [Term ''x'']"
    and u1: "pp_terms (fst s1) = Some [Term ''x'']"
    and f1: "p_f (fst s1) = Some f" "length (f_args f) = 1"
    unfolding ex_formula_def by blast
  have m1: "design_main ex_sympy ex_numlib ex_obs None False True (ex_formula, ex_world)
      = design_general ex_sympy ex_numlib ex_obs None False True
          \<lparr>dt_param = [], dt_term = [''x''], dt_preterm = [''x'']\<rparr> s1"
    using x t1 by (simp add: design_main_after_setup [OF s1 d1])
  from design_general_contrasts [OF u1 f1(1), of ex_sympy ex_numlib ex_obs False
      "\<lparr>dt_param = [], dt_term = [''x''], dt_preterm = [''x'']\<rparr>"] f1(2)
  obtain D D2 P where g1: "design_general ex_sympy ex_numlib ex_obs None False True
      \<lparr>dt_param = [], dt_term = [''x''], dt_preterm = [''x'']\<rparr> s1
        = (Inr (Full (FloatResult D) (Some (D2, P))), s1)"
    by auto
  from single_setup_full [of "''y''" "snd s1"]
  obtain s2 where s2: "setup_design ex_sympy (Formula_init [Term ''y''] ''b'', snd s1) = (Inr (), s2)"
    and d2: "p_dtypes (fst s2) = Some \<lparr>dt_param = [], dt_term = [''y''], dt_preterm = [''y'']\<rparr>"
    by blast
  have m2: "design_main ex_sympy ex_numlib ex_obs None True False (Formula_init [Term ''y''] ''b'', snd s1)
      = (Inl (ValueError ''for term, expecting a recarray with dtype having the following names: ''), s2)"
    by (simp add: design_main_after_setup [OF s2 d2] ex_obs_def)
  have cl: "fst (contrast_loop ex_sympy ex_numlib ex_obs None D2 P ?cs s1)
      = Inl (ValueError ''for term, expecting a recarray with dtype having the following names: '')"
    by (simp add: m2)
  have m3: "design_main ex_sympy ex_numlib ex_obs None False True (ex_formula, ex_world)
      = (Inr (Full (FloatResult D) (Some (D2, P))), s1)"
    using m1 g1 by simp
  have "fst (design ex_sympy ex_numlib ex_obs None False (Some ?cs) (ex_formula, ex_world))
      = Inl (ValueError ''for term, expecting a recarray with dtype having the following names: '')"
    by (simp only: design_contrast_path [OF m3] cl sum.case list.distinct not_False_eq_True)
  then show ?thesis using ex_schemas x n1 by simp
qed

end
